theory Spec2Isabelle
  imports Main
begin

section \<open>Strings of the JavaScript source\<close>

text \<open>
  A JavaScript string is a sequence of UTF-16 code units. This development models the
  strings whose code units lie below 256 (the ISO-8859-1 range), one \<^typ>\<open>char\<close> per code
  unit: \<^term>\<open>of_char c :: nat\<close> is the code unit. Every string the proxy itself produces
  (proxy links, resolved URLs, base64 bodies) is ASCII.
\<close>

definition code :: "char \<Rightarrow> nat" where
  "code c = of_char c"

definition isWhiteSpace :: "char \<Rightarrow> bool" where
  \<comment> \<open>WhiteSpace and LineTerminator of ECMAScript below 256: TAB, LF, VT, FF, CR, SP, NBSP;
      the set that \<open>String.prototype.trim\<close> strips and that \<open>\s\<close> matches.\<close>
  "isWhiteSpace c = (code c = 9 \<or> code c = 10 \<or> code c = 11 \<or> code c = 12 \<or> code c = 13
                     \<or> code c = 32 \<or> code c = 160)"

definition trim :: "string \<Rightarrow> string" where
  "trim s = rev (dropWhile isWhiteSpace (rev (dropWhile isWhiteSpace s)))"

definition lowerChar :: "char \<Rightarrow> char" where
  \<comment> \<open>\<open>toLowerCase\<close> on one code unit below 256: A-Z, and the Latin-1 capitals
      U+00C0..U+00DE except the multiplication sign U+00D7.\<close>
  "lowerChar c =
     (if (65 \<le> code c \<and> code c \<le> 90) \<or> (192 \<le> code c \<and> code c \<le> 222 \<and> code c \<noteq> 215)
      then char_of (code c + 32) else c)"

definition toLowerCase :: "string \<Rightarrow> string" where
  "toLowerCase s = map lowerChar s"

definition startsWith :: "string \<Rightarrow> string \<Rightarrow> bool" where
  "startsWith s p = (take (length p) s = p)"

definition endsWith :: "string \<Rightarrow> string \<Rightarrow> bool" where
  "endsWith s p = (length p \<le> length s \<and> drop (length s - length p) s = p)"

definition canonicalize :: "char \<Rightarrow> char" where
  \<comment> \<open>Canonicalize of a regular expression with the \<open>i\<close> flag and without the \<open>u\<close> flag,
      as far as it decides a match against an ASCII pattern character: a-z go to A-Z, and
      a code unit of 128 or more is never made equal to an ASCII one.\<close>
  "canonicalize c = (if 97 \<le> code c \<and> code c \<le> 122 then char_of (code c - 32) else c)"

definition isDigit :: "char \<Rightarrow> bool" where
  "isDigit c = (48 \<le> code c \<and> code c \<le> 57)"


section \<open>Host Guard\<close>

text \<open>
  The seven regular expressions of \<open>BLOCKED_HOST_PATTERNS\<close>, each as the predicate that
  \<open>rx.test(hostname)\<close> computes. \<open>^\<close> and \<open>$\<close> are the start and the end of the input
  (no \<open>m\<close> flag).
\<close>

definition rx_localhost :: "string \<Rightarrow> bool" where
  \<comment> \<open>\<open>/^localhost$/i\<close>\<close>
  "rx_localhost h = (map canonicalize h = map canonicalize ''localhost'')"

definition rx_127 :: "string \<Rightarrow> bool" where
  \<comment> \<open>\<open>/^127\./\<close>\<close>
  "rx_127 h = startsWith h ''127.''"

definition rx_10 :: "string \<Rightarrow> bool" where
  \<comment> \<open>\<open>/^10\./\<close>\<close>
  "rx_10 h = startsWith h ''10.''"

definition rx_192_168 :: "string \<Rightarrow> bool" where
  \<comment> \<open>\<open>/^192\.168\./\<close>\<close>
  "rx_192_168 h = startsWith h ''192.168.''"

definition rx_172 :: "string \<Rightarrow> bool" where
  \<comment> \<open>\<open>/^172\.(1[6-9]|2[0-9]|3[0-1])\./\<close>\<close>
  "rx_172 h =
     (startsWith h ''172.'' \<and>
      (case drop 4 h of
         a # b # d # _ \<Rightarrow>
           ((a = CHR ''1'' \<and> 54 \<le> code b \<and> code b \<le> 57) \<or>
            (a = CHR ''2'' \<and> isDigit b) \<or>
            (a = CHR ''3'' \<and> 48 \<le> code b \<and> code b \<le> 49)) \<and> d = CHR ''.''
       | _ \<Rightarrow> False))"

definition rx_local :: "string \<Rightarrow> bool" where
  \<comment> \<open>\<open>/\.local$/i\<close>\<close>
  "rx_local h = endsWith (map canonicalize h) (map canonicalize ''.local'')"

definition rx_0 :: "string \<Rightarrow> bool" where
  \<comment> \<open>\<open>/^0\./\<close>\<close>
  "rx_0 h = startsWith h ''0.''"

definition BLOCKED_HOST_PATTERNS :: "(string \<Rightarrow> bool) list" where
  "BLOCKED_HOST_PATTERNS = [rx_localhost, rx_127, rx_10, rx_192_168, rx_172, rx_local, rx_0]"

definition isBlockedHost :: "string option \<Rightarrow> bool" where
  \<comment> \<open>\<open>None\<close> is an absent (undefined or null) hostname; the empty string is falsy too.\<close>
  "isBlockedHost hostname =
     (case hostname of
        None \<Rightarrow> True
      | Some h \<Rightarrow> if h = [] then True else list_ex (\<lambda>rx. rx h) BLOCKED_HOST_PATTERNS)"


section \<open>URL Rewriter\<close>

subsection \<open>\<open>encodeURIComponent\<close> and \<open>decodeURIComponent\<close>\<close>

definition isAlpha :: "char \<Rightarrow> bool" where
  "isAlpha c = ((65 \<le> code c \<and> code c \<le> 90) \<or> (97 \<le> code c \<and> code c \<le> 122))"

definition isUnescaped :: "char \<Rightarrow> bool" where
  \<comment> \<open>The characters \<open>encodeURIComponent\<close> leaves alone: letters, digits and
      \<open>- _ . ! ~ * ' ( )\<close>.\<close>
  "isUnescaped c =
     (isAlpha c \<or> isDigit c \<or> code c = 45 \<or> code c = 95 \<or> code c = 46 \<or> code c = 33
      \<or> code c = 126 \<or> code c = 42 \<or> code c = 39 \<or> code c = 40 \<or> code c = 41)"

definition hexDigit :: "nat \<Rightarrow> char" where
  "hexDigit n = (if n < 10 then char_of (48 + n) else char_of (55 + n))"

definition pctByte :: "nat \<Rightarrow> string" where
  \<comment> \<open>One octet as \<open>%XX\<close>, upper-case hexadecimal.\<close>
  "pctByte n = [CHR ''%'', hexDigit (n div 16), hexDigit (n mod 16)]"

definition utf8 :: "char \<Rightarrow> nat list" where
  \<comment> \<open>The UTF-8 octets of a code point below 256.\<close>
  "utf8 c = (if code c < 128 then [code c] else [192 + code c div 64, 128 + code c mod 64])"

definition pctEncode :: "char \<Rightarrow> string" where
  "pctEncode c = concat (map pctByte (utf8 c))"

definition encodeURIComponent :: "string \<Rightarrow> string" where
  "encodeURIComponent s = concat (map (\<lambda>c. if isUnescaped c then [c] else pctEncode c) s)"

definition hexVal :: "char \<Rightarrow> nat option" where
  "hexVal c =
     (if isDigit c then Some (code c - 48)
      else if 65 \<le> code c \<and> code c \<le> 70 then Some (code c - 55)
      else if 97 \<le> code c \<and> code c \<le> 102 then Some (code c - 87)
      else None)"

definition hexByte :: "char \<Rightarrow> char \<Rightarrow> nat option" where
  "hexByte a b =
     (case hexVal a of None \<Rightarrow> None
      | Some x \<Rightarrow> (case hexVal b of None \<Rightarrow> None | Some y \<Rightarrow> Some (16 * x + y)))"

fun decodeURIComponent :: "string \<Rightarrow> string option" where
  \<comment> \<open>\<open>None\<close> is the URIError of a malformed escape, and also a well-formed escape of a
      code point of 256 or more, which has no string in this model.\<close>
  "decodeURIComponent [] = Some []"
| "decodeURIComponent (c # s) =
     (if c \<noteq> CHR ''%'' then map_option ((#) c) (decodeURIComponent s)
      else (case s of
              a # b # s1 \<Rightarrow>
                (case hexByte a b of
                   None \<Rightarrow> None
                 | Some B \<Rightarrow>
                     if B < 128 then map_option ((#) (char_of B)) (decodeURIComponent s1)
                     else if 194 \<le> B \<and> B \<le> 195 then
                       (case s1 of
                          p # a2 # b2 # s2 \<Rightarrow>
                            if p \<noteq> CHR ''%'' then None
                            else (case hexByte a2 b2 of
                                    None \<Rightarrow> None
                                  | Some B2 \<Rightarrow>
                                      if 128 \<le> B2 \<and> B2 < 192
                                      then map_option ((#) (char_of ((B - 192) * 64 + (B2 - 128))))
                                             (decodeURIComponent s2)
                                      else None)
                        | _ \<Rightarrow> None)
                     else None)
            | _ \<Rightarrow> None))"

subsection \<open>The rewriter\<close>

definition makeProxyUrl :: "string \<Rightarrow> string" where
  "makeProxyUrl target = ''/.netlify/functions/proxy?url='' @ encodeURIComponent target"

definition shouldRewriteAttr :: "string option \<Rightarrow> bool" where
  "shouldRewriteAttr val =
     (case val of
        None \<Rightarrow> False
      | Some s \<Rightarrow>
          if s = [] then False
          else (let v = toLowerCase (trim s)
                in \<not> (startsWith v ''data:'' \<or> startsWith v ''javascript:''
                       \<or> startsWith v ''mailto:'' \<or> startsWith v ''#'')))"

type_synonym url_href = "string \<Rightarrow> string \<Rightarrow> string option"
  \<comment> \<open>\<open>new URL(input, base).href\<close> of the platform; \<open>None\<close> when the constructor throws.\<close>

definition maybeRewriteUrl :: "url_href \<Rightarrow> string option \<Rightarrow> string \<Rightarrow> string option" where
  \<comment> \<open>The attribute value is \<open>None\<close> when it is null or undefined. The \<open>catch\<close> returns the
      attribute value; the only call that can throw is the URL constructor, since
      \<open>encodeURIComponent\<close> is total on these strings.\<close>
  "maybeRewriteUrl href attrValue baseUrl =
     (case attrValue of
        None \<Rightarrow> None
      | Some v \<Rightarrow>
          if v = [] then Some v
          else if \<not> shouldRewriteAttr (Some v) then Some v
          else (case href v baseUrl of
                  None \<Rightarrow> Some v
                | Some resolved \<Rightarrow> Some (makeProxyUrl resolved)))"

subsection \<open>Reading a proxy link back\<close>

definition urlParam :: "string \<Rightarrow> string option" where
  \<comment> \<open>The raw value of the \<open>url\<close> query parameter of a link to the proxy endpoint: what
      follows \<open>?url=\<close> up to the next \<open>&\<close> or \<open>#\<close>.\<close>
  "urlParam link =
     (if startsWith link ''/.netlify/functions/proxy?url=''
      then Some (takeWhile (\<lambda>c. c \<noteq> CHR ''&'' \<and> c \<noteq> CHR ''#'') (drop 30 link))
      else None)"

definition embeddedTarget :: "string \<Rightarrow> string option" where
  \<comment> \<open>The target a proxy link carries: its \<open>url\<close> parameter, percent-decoded.\<close>
  "embeddedTarget link =
     (case urlParam link of None \<Rightarrow> None | Some raw \<Rightarrow> decodeURIComponent raw)"

definition nonNavigable :: "string \<Rightarrow> bool" where
  \<comment> \<open>Written from the specification's words: the trimmed, lower-cased value starts with
      \<open>data:\<close>, \<open>javascript:\<close>, \<open>mailto:\<close> or \<open>#\<close>.\<close>
  "nonNavigable s =
     (let v = toLowerCase (trim s)
      in startsWith v ''data:'' \<or> startsWith v ''javascript:'' \<or> startsWith v ''mailto:''
         \<or> startsWith v ''#'')"


definition rewriteTarget :: "url_href \<Rightarrow> string \<Rightarrow> string \<Rightarrow> string option" where
  \<comment> \<open>\<open>decode(rewrite(value, base))\<close>: the target carried by the rewriter's result, if it
      carries one.\<close>
  "rewriteTarget href v baseUrl =
     (case maybeRewriteUrl href (Some v) baseUrl of None \<Rightarrow> None | Some l \<Rightarrow> embeddedTarget l)"

definition isUriChar :: "char \<Rightarrow> bool" where
  \<comment> \<open>The characters that \<open>encodeURIComponent\<close> can produce.\<close>
  "isUriChar c = (isUnescaped c \<or> c = CHR ''%'')"


section \<open>The platform's URL constructor\<close>

text \<open>
  \<open>new URL(input, base).href\<close> belongs to the JavaScript platform, not to the repository.
  The rewriter takes it as the parameter \<open>href\<close> above. For closed statements at concrete
  inputs, this section gives a model of it.

  Modelled from the specification the platform implements (WHATWG URL Standard, basic URL
  parser and URL serializer): \<open>basicParse\<close> and \<open>serialize\<close>. The model covers URLs of the
  special schemes \<open>http\<close>, \<open>https\<close>, \<open>ws\<close>, \<open>wss\<close> and \<open>ftp\<close> whose authority is an ASCII
  domain with an optional port. On everything else (other schemes, credentials, IPv6 and
  numeric hosts, percent-escapes or \<open>xn--\<close> labels in the host, \<open>^\<close> in the path) it answers
  \<open>Outside\<close>: the platform may or may not construct a URL there, and the model does not say.
  \<open>Failure\<close> is the parser's failure, on which the constructor throws.
\<close>

datatype 'a outcome = Ok 'a | Failure | Outside

record url =
  scheme :: string
  host :: string
  port :: "nat option"
  path :: "string list"
  query :: "string option"
  fragment :: "string option"

definition isC0OrSpace :: "char \<Rightarrow> bool" where
  "isC0OrSpace c = (code c \<le> 32)"

definition isTabOrNewline :: "char \<Rightarrow> bool" where
  "isTabOrNewline c = (code c = 9 \<or> code c = 10 \<or> code c = 13)"

definition sanitize :: "string \<Rightarrow> string" where
  \<comment> \<open>Leading and trailing C0 controls and spaces are removed, then every tab and newline.\<close>
  "sanitize s =
     filter (\<lambda>c. \<not> isTabOrNewline c)
       (rev (dropWhile isC0OrSpace (rev (dropWhile isC0OrSpace s))))"

definition asciiLower :: "char \<Rightarrow> char" where
  "asciiLower c = (if 65 \<le> code c \<and> code c \<le> 90 then char_of (code c + 32) else c)"

definition isSchemeChar :: "char \<Rightarrow> bool" where
  "isSchemeChar c = (isAlpha c \<or> isDigit c \<or> c = CHR ''+'' \<or> c = CHR ''-'' \<or> c = CHR ''.'')"

definition splitScheme :: "string \<Rightarrow> (string \<times> string) option" where
  \<comment> \<open>Scheme start state and scheme state: a letter, then letters, digits, \<open>+ - .\<close>, then a
      colon. The result is the lower-cased scheme and what follows the colon.\<close>
  "splitScheme s =
     (case s of
        [] \<Rightarrow> None
      | c # _ \<Rightarrow>
          if \<not> isAlpha c then None
          else (case dropWhile isSchemeChar s of
                  [] \<Rightarrow> None
                | d # r \<Rightarrow>
                    if d = CHR '':'' then Some (map asciiLower (takeWhile isSchemeChar s), r)
                    else None))"

definition isSpecial :: "string \<Rightarrow> bool" where
  \<comment> \<open>The special schemes other than \<open>file\<close>.\<close>
  "isSpecial sch = (sch = ''http'' \<or> sch = ''https'' \<or> sch = ''ws'' \<or> sch = ''wss'' \<or> sch = ''ftp'')"

definition defaultPort :: "string \<Rightarrow> nat option" where
  "defaultPort sch =
     (if sch = ''http'' \<or> sch = ''ws'' then Some 80
      else if sch = ''https'' \<or> sch = ''wss'' then Some 443
      else if sch = ''ftp'' then Some 21
      else None)"

definition inC0ControlSet :: "char \<Rightarrow> bool" where
  "inC0ControlSet c = (code c \<le> 31 \<or> 126 < code c)"

definition inFragmentSet :: "char \<Rightarrow> bool" where
  "inFragmentSet c =
     (inC0ControlSet c \<or> code c = 32 \<or> code c = 34 \<or> code c = 60 \<or> code c = 62 \<or> code c = 96)"

definition inQuerySet :: "char \<Rightarrow> bool" where
  "inQuerySet c =
     (inC0ControlSet c \<or> code c = 32 \<or> code c = 34 \<or> code c = 35 \<or> code c = 60 \<or> code c = 62)"

definition inSpecialQuerySet :: "char \<Rightarrow> bool" where
  "inSpecialQuerySet c = (inQuerySet c \<or> code c = 39)"

definition inPathSet :: "char \<Rightarrow> bool" where
  "inPathSet c =
     (inQuerySet c \<or> code c = 63 \<or> code c = 94 \<or> code c = 96 \<or> code c = 123 \<or> code c = 125)"

definition encodeWith :: "(char \<Rightarrow> bool) \<Rightarrow> string \<Rightarrow> string" where
  \<comment> \<open>UTF-8 percent-encode every code point of the given percent-encode set.\<close>
  "encodeWith inSet s = concat (map (\<lambda>c. if inSet c then pctEncode c else [c]) s)"

definition isSingleDot :: "string \<Rightarrow> bool" where
  "isSingleDot seg = (seg = ''.'' \<or> map asciiLower seg = ''%2e'')"

definition isDoubleDot :: "string \<Rightarrow> bool" where
  "isDoubleDot seg =
     (seg = ''..'' \<or> map asciiLower seg = ''.%2e'' \<or> map asciiLower seg = ''%2e.''
      \<or> map asciiLower seg = ''%2e%2e'')"

definition isSlash :: "char \<Rightarrow> bool" where
  \<comment> \<open>In a special URL a backslash is read as a slash.\<close>
  "isSlash c = (c = CHR ''/'' \<or> code c = 92)"

fun splitWhen :: "(char \<Rightarrow> bool) \<Rightarrow> string \<Rightarrow> string list" where
  \<comment> \<open>The pieces between the separators; the result is never empty, so the first case
      branch is never taken.\<close>
  "splitWhen P [] = [[]]"
| "splitWhen P (c # s) =
     (if P c then [] # splitWhen P s
      else (case splitWhen P s of [] \<Rightarrow> [[c]] | x # xs \<Rightarrow> (c # x) # xs))"

fun pathSegments :: "string list \<Rightarrow> string list \<Rightarrow> string list" where
  \<comment> \<open>Path state, one buffer at a time: a double-dot segment shortens the path, a
      single-dot segment is dropped, and either leaves an empty segment when it is last.\<close>
  "pathSegments p [] = p"
| "pathSegments p (seg # rest) =
     (let buf = encodeWith inPathSet seg
      in if isDoubleDot buf then pathSegments (butlast p @ (if rest = [] then [[]] else [])) rest
         else if isSingleDot buf then pathSegments (p @ (if rest = [] then [[]] else [])) rest
         else pathSegments (p @ [buf]) rest)"

definition notQueryOrFragment :: "char \<Rightarrow> bool" where
  "notQueryOrFragment c = (c \<noteq> CHR ''?'' \<and> c \<noteq> CHR ''#'')"

definition notHash :: "char \<Rightarrow> bool" where
  "notHash c = (c \<noteq> CHR ''#'')"

definition parseTail :: "string \<Rightarrow> string option \<times> string option" where
  \<comment> \<open>Query state and fragment state, on input that is empty or starts with \<open>?\<close> or \<open>#\<close>.\<close>
  "parseTail t =
     (case t of
        [] \<Rightarrow> (None, None)
      | c # r \<Rightarrow>
          if c = CHR ''?''
          then (Some (encodeWith inSpecialQuerySet (takeWhile notHash r)),
                (case dropWhile notHash r of
                   [] \<Rightarrow> None
                 | _ # f \<Rightarrow> Some (encodeWith inFragmentSet f)))
          else (None, Some (encodeWith inFragmentSet r)))"

definition parsePath :: "url \<Rightarrow> string list \<Rightarrow> string \<Rightarrow> url outcome" where
  \<comment> \<open>Path state from the first character of a segment, then query and fragment.\<close>
  "parsePath u p0 r =
     (let p = takeWhile notQueryOrFragment r; t = dropWhile notQueryOrFragment r
      in if CHR ''^'' \<in> set p then Outside
         else Ok (u\<lparr>path := pathSegments p0 (splitWhen isSlash p),
                   query := fst (parseTail t), fragment := snd (parseTail t)\<rparr>))"

definition isForbiddenDomain :: "char \<Rightarrow> bool" where
  \<comment> \<open>Forbidden domain code points.\<close>
  "isForbiddenDomain c =
     (code c \<le> 32 \<or> code c = 35 \<or> code c = 37 \<or> code c = 47 \<or> code c = 58 \<or> code c = 60
      \<or> code c = 62 \<or> code c = 63 \<or> code c = 64 \<or> code c = 91 \<or> code c = 92 \<or> code c = 93
      \<or> code c = 94 \<or> code c = 124 \<or> code c = 127)"

definition isHexDigit :: "char \<Rightarrow> bool" where
  "isHexDigit c = (hexVal c \<noteq> None)"

definition endsInNumber :: "string \<Rightarrow> bool" where
  \<comment> \<open>The last label (after one trailing dot) is all digits, or \<open>0x\<close> and hexadecimal digits.\<close>
  "endsInNumber d =
     (let parts = splitWhen (\<lambda>c. c = CHR ''.'') d;
          parts1 = (if last parts = [] \<and> length parts > 1 then butlast parts else parts);
          l = last parts1
      in (l \<noteq> [] \<and> list_all isDigit l)
         \<or> (startsWith (map asciiLower l) ''0x'' \<and> list_all isHexDigit (drop 2 l)))"

definition parseHost :: "string \<Rightarrow> string outcome" where
  "parseHost h =
     (if h = [] then Failure
      else if list_ex (\<lambda>c. 128 \<le> code c \<or> c = CHR ''%'') h then Outside
      else (let d = map asciiLower h
            in if list_ex (\<lambda>l. startsWith l ''xn--'') (splitWhen (\<lambda>c. c = CHR ''.'') d)
               then Outside
               else if list_ex isForbiddenDomain d then Failure
               else if endsInNumber d then Outside
               else Ok d))"

definition digitsValue :: "string \<Rightarrow> nat" where
  "digitsValue s = foldl (\<lambda>n c. 10 * n + (code c - 48)) 0 s"

definition parsePort :: "string \<Rightarrow> string \<Rightarrow> nat option outcome" where
  \<comment> \<open>Port state: digits only, at most 65535, and the scheme's default port is dropped.\<close>
  "parsePort sch p =
     (if p = [] then Ok None
      else if \<not> list_all isDigit p then Failure
      else if 65535 < digitsValue p then Failure
      else Ok (if defaultPort sch = Some (digitsValue p) then None else Some (digitsValue p)))"

definition notAuthorityEnd :: "char \<Rightarrow> bool" where
  "notAuthorityEnd c = (c \<noteq> CHR ''/'' \<and> c \<noteq> CHR ''?'' \<and> c \<noteq> CHR ''#'' \<and> code c \<noteq> 92)"

definition notColon :: "char \<Rightarrow> bool" where
  "notColon c = (c \<noteq> CHR '':'')"

definition parseAuthority :: "string \<Rightarrow> string \<Rightarrow> url outcome" where
  \<comment> \<open>Authority, host, port and path start state, on the input after the slashes.\<close>
  "parseAuthority sch r =
     (let a = takeWhile notAuthorityEnd r; rest = dropWhile notAuthorityEnd r
      in if CHR ''@'' \<in> set a \<or> CHR ''['' \<in> set a then Outside
         else (case parseHost (takeWhile notColon a) of
                 Failure \<Rightarrow> Failure
               | Outside \<Rightarrow> Outside
               | Ok h \<Rightarrow>
                   (case parsePort sch (drop 1 (dropWhile notColon a)) of
                      Failure \<Rightarrow> Failure
                    | Outside \<Rightarrow> Outside
                    | Ok pt \<Rightarrow>
                        parsePath
                          \<lparr>scheme = sch, host = h, port = pt, path = [], query = None,
                           fragment = None\<rparr>
                          []
                          (case rest of [] \<Rightarrow> [] | c # rest1 \<Rightarrow> if isSlash c then rest1 else rest))))"

definition parseRelative :: "url \<Rightarrow> string \<Rightarrow> url outcome" where
  \<comment> \<open>Relative state and relative slash state, against a base of a special scheme.\<close>
  "parseRelative b r =
     (case r of
        [] \<Rightarrow> Ok (b\<lparr>fragment := None\<rparr>)
      | c # r1 \<Rightarrow>
          if isSlash c
          then (case r1 of
                  [] \<Rightarrow> parsePath b [] []
                | d # r2 \<Rightarrow>
                    if isSlash d then parseAuthority (scheme b) (dropWhile isSlash r2)
                    else parsePath b [] r1)
          else if c = CHR ''?''
          then Ok (b\<lparr>query := fst (parseTail r), fragment := snd (parseTail r)\<rparr>)
          else if c = CHR ''#''
          then Ok (b\<lparr>fragment := snd (parseTail r)\<rparr>)
          else parsePath b (butlast (path b)) r)"

definition basicParse :: "url option \<Rightarrow> string \<Rightarrow> url outcome" where
  "basicParse base input =
     (let s = sanitize input
      in case splitScheme s of
           Some (sch, r) \<Rightarrow>
             if \<not> isSpecial sch then Outside
             else (case base of
                     None \<Rightarrow> parseAuthority sch (dropWhile isSlash r)
                   | Some b \<Rightarrow>
                       if scheme b = sch \<and> \<not> startsWith r ''//''
                       then parseRelative b r
                       else parseAuthority sch (dropWhile isSlash r))
         | None \<Rightarrow> (case base of None \<Rightarrow> Failure | Some b \<Rightarrow> parseRelative b s))"

function showNat :: "nat \<Rightarrow> string" where
  "showNat n = (if n < 10 then [char_of (48 + n)] else showNat (n div 10) @ [char_of (48 + n mod 10)])"
  by pat_completeness auto
termination
  by (relation "measure id") auto

declare showNat.simps [simp del]

definition serialize :: "url \<Rightarrow> string" where
  "serialize u =
     scheme u @ ''://'' @ host u
     @ (case port u of None \<Rightarrow> [] | Some n \<Rightarrow> CHR '':'' # showNat n)
     @ concat (map (\<lambda>seg. CHR ''/'' # seg) (path u))
     @ (case query u of None \<Rightarrow> [] | Some q \<Rightarrow> CHR ''?'' # q)
     @ (case fragment u of None \<Rightarrow> [] | Some f \<Rightarrow> CHR ''#'' # f)"

definition URL_href :: url_href where
  \<comment> \<open>\<open>new URL(input, base).href\<close>: the base is parsed on its own first.\<close>
  "URL_href input base =
     (case basicParse None base of
        Ok b \<Rightarrow> (case basicParse (Some b) input of Ok u \<Rightarrow> Some (serialize u) | _ \<Rightarrow> None)
      | _ \<Rightarrow> None)"

definition URL_hostname :: "string \<Rightarrow> string option" where
  \<comment> \<open>\<open>new URL(input).hostname\<close>; \<open>None\<close> when the constructor throws.\<close>
  "URL_hostname input = (case basicParse None input of Ok u \<Rightarrow> Some (host u) | _ \<Rightarrow> None)"


section \<open>Response Transformer\<close>

subsection \<open>Content type\<close>

definition split :: "char \<Rightarrow> string \<Rightarrow> string list" where
  \<comment> \<open>\<open>s.split(sep)\<close> with a one-character separator.\<close>
  "split sep s = splitWhen (\<lambda>c. c = sep) s"

fun join :: "string \<Rightarrow> string list \<Rightarrow> string" where
  "join sep [] = []"
| "join sep [x] = x"
| "join sep (x # y # ys) = x @ sep @ join sep (y # ys)"

definition isHtmlContentType :: "string option \<Rightarrow> bool" where
  \<comment> \<open>\<open>None\<close> is a null or undefined content type. The empty case branch is not reached:
      \<open>split\<close> never returns an empty array.\<close>
  "isHtmlContentType contentType =
     (case contentType of
        None \<Rightarrow> False
      | Some ct \<Rightarrow>
          if ct = [] then False
          else (case split CHR '';'' ct of
                  [] \<Rightarrow> False
                | m # _ \<Rightarrow> toLowerCase (trim m) = ''text/html''))"

subsection \<open>Base64\<close>

type_synonym byte = char
  \<comment> \<open>An octet; \<^term>\<open>code b\<close> is its value.\<close>

definition b64 :: "nat \<Rightarrow> char" where
  \<comment> \<open>The standard alphabet \<open>A-Z a-z 0-9 + /\<close>.\<close>
  "b64 n =
     (if n < 26 then char_of (65 + n)
      else if n < 52 then char_of (71 + n)
      else if n < 62 then char_of (n - 4)
      else if n = 62 then CHR ''+'' else CHR ''/'')"

fun base64 :: "byte list \<Rightarrow> string" where
  \<comment> \<open>\<open>buffer.toString('base64')\<close>.\<close>
  "base64 [] = []"
| "base64 [a] = [b64 (code a div 4), b64 (code a mod 4 * 16), CHR ''='', CHR ''='']"
| "base64 [a, b] =
     [b64 (code a div 4), b64 (code a mod 4 * 16 + code b div 16), b64 (code b mod 16 * 4),
      CHR ''='']"
| "base64 (a # b # c # r) =
     [b64 (code a div 4), b64 (code a mod 4 * 16 + code b div 16),
      b64 (code b mod 16 * 4 + code c div 64), b64 (code c mod 64)] @ base64 r"

definition b64val :: "char \<Rightarrow> nat option" where
  "b64val c =
     (if 65 \<le> code c \<and> code c \<le> 90 then Some (code c - 65)
      else if 97 \<le> code c \<and> code c \<le> 122 then Some (code c - 71)
      else if 48 \<le> code c \<and> code c \<le> 57 then Some (code c + 4)
      else if c = CHR ''+'' then Some 62
      else if c = CHR ''/'' then Some 63
      else None)"

fun base64Decode :: "string \<Rightarrow> byte list option" where
  \<comment> \<open>The decoder of the receiving side, for padded standard base64.\<close>
  "base64Decode (w # x # y # z # r) =
     (case (b64val w, b64val x) of
        (Some p, Some q) \<Rightarrow>
          if r = [] \<and> z = CHR ''='' \<and> y = CHR ''=''
          then Some [char_of (p * 4 + q div 16)]
          else (case b64val y of
                  None \<Rightarrow> None
                | Some u \<Rightarrow>
                    if r = [] \<and> z = CHR ''=''
                    then Some [char_of (p * 4 + q div 16), char_of (q mod 16 * 16 + u div 4)]
                    else (case b64val z of
                            None \<Rightarrow> None
                          | Some v \<Rightarrow>
                              map_option
                                (\<lambda>bs. char_of (p * 4 + q div 16)
                                       # char_of (q mod 16 * 16 + u div 4)
                                       # char_of (u mod 4 * 64 + v) # bs)
                                (base64Decode r)))
      | _ \<Rightarrow> None)"
| "base64Decode [] = Some []"
| "base64Decode _ = None"

subsection \<open>The parsed document\<close>

text \<open>
  The document tree that \<open>cheerio.load\<close> builds: elements with their tag name, their
  attributes in order (each name once, as the HTML parser leaves them) and their children;
  every other node (text, comment, doctype) is kept as it is.
\<close>

datatype node = Element string "(string \<times> string) list" "node list" | Other string

fun mapElements :: "(string \<Rightarrow> (string \<times> string) list \<Rightarrow> (string \<times> string) list) \<Rightarrow> node \<Rightarrow> node" where
  \<comment> \<open>\<open>$(selector).each(...)\<close> for a callback that only sets attributes of the element it
      is given: every element of the tree is visited in document order.\<close>
  "mapElements f (Element t as cs) = Element t (f t as) (map (mapElements f) cs)"
| "mapElements f (Other s) = Other s"

fun setAttr :: "string \<Rightarrow> string \<Rightarrow> (string \<times> string) list \<Rightarrow> (string \<times> string) list" where
  \<comment> \<open>\<open>$el.attr(name, value)\<close> with a string value.\<close>
  "setAttr n v [] = [(n, v)]"
| "setAttr n v ((k, w) # as) = (if k = n then (k, v) # as else (k, w) # setAttr n v as)"

definition attrs :: "(string \<times> string) list" where
  "attrs =
     [(''a'', ''href''), (''link'', ''href''), (''script'', ''src''), (''img'', ''src''),
      (''iframe'', ''src''), (''form'', ''action''), (''source'', ''src''), (''video'', ''src''),
      (''audio'', ''src'')]"

definition rewriteAttr :: "url_href \<Rightarrow> string \<Rightarrow> string \<Rightarrow> (string \<times> string) list \<Rightarrow> (string \<times> string) list" where
  \<comment> \<open>The callback of the rewrite loop. \<open>maybeRewriteUrl\<close> returns a string for a string, so
      the last branch is not reached.\<close>
  "rewriteAttr href baseUrl attr as =
     (case map_of as attr of
        None \<Rightarrow> as
      | Some val \<Rightarrow>
          if val = [] then as
          else (case maybeRewriteUrl href (Some val) baseUrl of
                  Some newVal \<Rightarrow> setAttr attr newVal as
                | None \<Rightarrow> as))"

definition rewriteLinks :: "url_href \<Rightarrow> string \<Rightarrow> node list \<Rightarrow> node list" where
  "rewriteLinks href baseUrl doc =
     fold (\<lambda>(sel, attr) d.
             map (mapElements (\<lambda>t as. if t = sel then rewriteAttr href baseUrl attr as else as)) d)
       attrs doc"

definition stripUrlPrefix :: "string \<Rightarrow> string" where
  \<comment> \<open>\<open>s.replace(/^\s*url=/i, '')\<close>\<close>
  "stripUrlPrefix s =
     (let r = dropWhile isWhiteSpace s
      in if startsWith (map canonicalize r) (map canonicalize ''url='') then drop 4 r else s)"

definition templateString :: "string option \<Rightarrow> string" where
  \<comment> \<open>A value inside a template literal.\<close>
  "templateString v = (case v of None \<Rightarrow> ''undefined'' | Some s \<Rightarrow> s)"

definition refreshContent :: "url_href \<Rightarrow> string \<Rightarrow> string \<Rightarrow> string option" where
  \<comment> \<open>The new \<open>content\<close> of a refresh element, or \<open>None\<close> when the attribute is not set.\<close>
  "refreshContent href baseUrl content =
     (let parts = split CHR '';'' content
      in if 1 < length parts
         then (let urlPart = stripUrlPrefix (join '';'' (drop 1 parts));
                   newUrl = maybeRewriteUrl href (Some urlPart) baseUrl
               in Some (join '';'' (parts[1 := ''url='' @ templateString newUrl])))
         else None)"

definition metaRefresh :: "url_href \<Rightarrow> string \<Rightarrow> string \<Rightarrow> (string \<times> string) list \<Rightarrow> (string \<times> string) list" where
  \<comment> \<open>The callback on \<open>meta[http-equiv]\<close>.\<close>
  "metaRefresh href baseUrl t as =
     (if t = ''meta'' \<and> map_of as ''http-equiv'' \<noteq> None
      then (let he = toLowerCase (case map_of as ''http-equiv'' of None \<Rightarrow> [] | Some h \<Rightarrow> h)
            in if he = ''refresh''
               then (case refreshContent href baseUrl
                            (case map_of as ''content'' of None \<Rightarrow> [] | Some c \<Rightarrow> c) of
                       None \<Rightarrow> as
                     | Some c \<Rightarrow> setAttr ''content'' c as)
               else as)
      else as)"

definition banner :: node where
  "banner =
     Element ''div''
       [(''id'', ''proxy-banner''),
        (''style'',
         ''position:fixed;left:12px;bottom:12px;z-index:999999;padding:8px 12px;background:rgba(0,0,0,0.65);color:white;border-radius:8px;font-family:Arial,Helvetica,sans-serif;font-size:13px;'')]
       [Other (CHR 0x0A # ''        proxied via proxy'' @ CHR 0x0A # ''      '')]"

fun prependBanner :: "node \<Rightarrow> node" where
  \<comment> \<open>\<open>$('body').prepend(...)\<close>\<close>
  "prependBanner (Element t as cs) =
     Element t as ((if t = ''body'' then [banner] else []) @ map prependBanner cs)"
| "prependBanner (Other s) = Other s"

definition transformHtml :: "url_href \<Rightarrow> string \<Rightarrow> node list \<Rightarrow> node list" where
  "transformHtml href baseUrl doc =
     map prependBanner
       (map (mapElements (metaRefresh href baseUrl)) (rewriteLinks href baseUrl doc))"

fun elements :: "node \<Rightarrow> (string \<times> (string \<times> string) list) list" where
  \<comment> \<open>The elements of a tree in document order, each with its attributes.\<close>
  "elements (Element t as cs) = (t, as) # concat (map elements cs)"
| "elements (Other s) = []"

definition docElements :: "node list \<Rightarrow> (string \<times> (string \<times> string) list) list" where
  "docElements doc = concat (map elements doc)"


subsection \<open>Link-bearing attributes of a document\<close>

definition isLinkTag :: "string \<Rightarrow> bool" where
  "isLinkTag t = (t \<in> set (map fst attrs))"

definition linkElements :: "node list \<Rightarrow> (string \<times> (string \<times> string) list) list" where
  \<comment> \<open>The elements of the rewrite table, in document order.\<close>
  "linkElements doc = filter (\<lambda>(t, as). isLinkTag t) (docElements doc)"

definition linkOk :: "url_href \<Rightarrow> string \<Rightarrow> string \<Rightarrow> string \<Rightarrow> bool" where
  \<comment> \<open>An attribute value \<open>w\<close> of the output against the value \<open>v\<close> it had in the input:
      unchanged because \<open>v\<close> is non-navigable, empty or not resolvable, or else the proxy
      link that carries the URL \<open>v\<close> resolves to.\<close>
  "linkOk href baseUrl v w =
     ((w = v \<and> (nonNavigable v \<or> v = [] \<or> href v baseUrl = None))
      \<or> (case href v baseUrl of
            None \<Rightarrow> False
          | Some r \<Rightarrow> w = makeProxyUrl r \<and> embeddedTarget w = Some r))"

definition linkAttrOk :: "url_href \<Rightarrow> string \<Rightarrow> string option \<Rightarrow> string option \<Rightarrow> bool" where
  "linkAttrOk href baseUrl ov ow =
     (case ov of
        None \<Rightarrow> ow = None
      | Some v \<Rightarrow> (case ow of None \<Rightarrow> False | Some w \<Rightarrow> linkOk href baseUrl v w))"


section \<open>Host Guard, as the specification words it\<close>

definition isBlocked_spec :: "string option \<Rightarrow> bool" where
  \<comment> \<open>Written from the specification's words: the hostname is absent or empty, is
      \<open>localhost\<close> in any letter case, starts with \<open>127.\<close>, \<open>10.\<close>, \<open>192.168.\<close> or \<open>0.\<close>,
      starts with \<open>172.\<close> and a second octet from 16 to 31, or ends with \<open>.local\<close> in any
      letter case.\<close>
  "isBlocked_spec hostname =
     (case hostname of
        None \<Rightarrow> True
      | Some h \<Rightarrow>
          h = [] \<or> map asciiLower h = ''localhost''
          \<or> startsWith h ''127.'' \<or> startsWith h ''10.'' \<or> startsWith h ''192.168.''
          \<or> startsWith h ''0.''
          \<or> list_ex (\<lambda>n. startsWith h (''172.'' @ showNat n @ ''.'')) [16..<32]
          \<or> endsWith (map asciiLower h) ''.local'')"


section \<open>Request Handler\<close>

text \<open>
  The handler receives the event of the function runtime and returns a response object.
  What it calls outside the repository is gathered in a record \<open>platform\<close>, so that every
  statement about the handler holds for whatever these functions return: the environment
  variable, \<open>JSON.parse\<close>, the URL constructor, \<open>fetch\<close> with the reading of the response
  body, and the HTML parser and serializer. A rejected promise or a thrown error is the
  left summand, carrying \<open>String(err)\<close>.
\<close>

datatype json =
    JNull
  | JBool bool
  | JNumber bool string  \<comment> \<open>whether the number is non-zero, and its \<open>String()\<close> form\<close>
  | JString string
  | JArray "json list"
  | JObject "(string \<times> json) list"

definition truthy :: "json \<Rightarrow> bool" where
  "truthy j =
     (case j of
        JNull \<Rightarrow> False | JBool b \<Rightarrow> b | JNumber nz _ \<Rightarrow> nz | JString s \<Rightarrow> s \<noteq> []
      | JArray _ \<Rightarrow> True | JObject _ \<Rightarrow> True)"

fun jsString :: "json \<Rightarrow> string" where
  \<comment> \<open>\<open>String(value)\<close>, which the URL constructor and \<open>fetch\<close> apply to a value that is not
      a string.\<close>
  "jsString JNull = ''null''"
| "jsString (JBool b) = (if b then ''true'' else ''false'')"
| "jsString (JNumber nz t) = t"
| "jsString (JString s) = s"
| "jsString (JArray xs) = join '','' (map (\<lambda>x. if x = JNull then [] else jsString x) xs)"
| "jsString (JObject kvs) = ''[object Object]''"

record event =
  httpMethod :: "string option"
  queryStringParameters :: "(string \<rightharpoonup> string) option"
  headers :: "(string \<rightharpoonup> string) option"
  body :: "string option"
  isBase64Encoded :: bool

datatype requestBody = TextBody string | Base64Body string
  \<comment> \<open>\<open>Base64Body s\<close> is \<open>Buffer.from(s, 'base64')\<close>.\<close>

record fetchInit =
  fetch_method :: string
  fetch_headers :: "string \<rightharpoonup> string"
  fetch_body :: "requestBody option"

record upstream =
  status :: nat
  res_headers :: "(string \<times> string) list"
    \<comment> \<open>the entries of \<open>res.headers\<close> in iteration order, names in lower case\<close>
  res_url :: string
  res_body :: "byte list"

record response =
  statusCode :: nat
  out_headers :: "(string \<times> string) list option"  \<comment> \<open>\<open>None\<close>: no \<open>headers\<close> property\<close>
  out_body :: string
  out_isBase64Encoded :: bool  \<comment> \<open>\<open>False\<close>: no \<open>isBase64Encoded\<close> property\<close>

record platform =
  PROXY_KEY :: "string option"
  JSON_parse :: "string \<Rightarrow> string + json"
  nullPropertyError :: string
    \<comment> \<open>\<open>String(err)\<close> of the TypeError raised by reading a property of null\<close>
  URL_hostname_of :: "string \<Rightarrow> string option"
  URL_href_of :: url_href
  fetch :: "string \<Rightarrow> fetchInit \<Rightarrow> string + upstream"
  text_of :: "byte list \<Rightarrow> string"
  cheerio_load :: "string \<Rightarrow> node list"
  cheerio_html :: "node list \<Rightarrow> string"

definition API_KEY :: "platform \<Rightarrow> string option" where
  \<comment> \<open>\<open>process.env.PROXY_KEY || null\<close>\<close>
  "API_KEY pf =
     (case PROXY_KEY pf of None \<Rightarrow> None | Some k \<Rightarrow> if k = [] then None else Some k)"

definition orEmpty :: "string option \<Rightarrow> string" where
  \<comment> \<open>\<open>value || ''\<close>\<close>
  "orEmpty v = (case v of None \<Rightarrow> [] | Some s \<Rightarrow> s)"

definition extractTarget :: "platform \<Rightarrow> event \<Rightarrow> (string \<rightharpoonup> string) \<Rightarrow> string + string option" where
  \<comment> \<open>\<open>qs.url || (event.body && JSON.parse(event.body).url)\<close>: an error, or the target
      when it is truthy, in the string form in which it is used.\<close>
  "extractTarget pf ev qs =
     (if orEmpty (qs ''url'') \<noteq> [] then Inr (Some (orEmpty (qs ''url'')))
      else if orEmpty (body ev) = [] then Inr None
      else (case JSON_parse pf (orEmpty (body ev)) of
              Inl err \<Rightarrow> Inl err
            | Inr JNull \<Rightarrow> Inl (nullPropertyError pf)
            | Inr (JObject kvs) \<Rightarrow>
                (case map_of kvs ''url'' of
                   None \<Rightarrow> Inr None
                 | Some v \<Rightarrow> if truthy v then Inr (Some (jsString v)) else Inr None)
            | Inr _ \<Rightarrow> Inr None))"

definition keyRejected :: "platform \<Rightarrow> event \<Rightarrow> (string \<rightharpoonup> string) \<Rightarrow> bool" where
  "keyRejected pf ev qs =
     (case API_KEY pf of
        None \<Rightarrow> False
      | Some k \<Rightarrow>
          (let headerKey =
                 (case headers ev of
                    None \<Rightarrow> []
                  | Some h \<Rightarrow>
                      if orEmpty (h ''x-proxy-key'') \<noteq> [] then orEmpty (h ''x-proxy-key'')
                      else orEmpty (h ''X-Proxy-Key''));
               qsKey = orEmpty (qs ''key'')
           in headerKey \<noteq> k \<and> qsKey \<noteq> k))"

fun setProp :: "string \<Rightarrow> string \<Rightarrow> (string \<times> string) list \<Rightarrow> (string \<times> string) list" where
  \<comment> \<open>\<open>obj[key] = value\<close> on an object kept as its entries in insertion order.\<close>
  "setProp n v [] = [(n, v)]"
| "setProp n v ((k, w) # kvs) = (if k = n then (k, v) # kvs else (k, w) # setProp n v kvs)"

definition droppedHeaders :: "string list" where
  "droppedHeaders =
     [''content-security-policy'', ''content-security-policy-report-only'', ''x-frame-options'',
      ''set-cookie'', ''transfer-encoding'']"

definition baseHeaders :: "upstream \<Rightarrow> (string \<times> string) list" where
  \<comment> \<open>\<open>outHeaders\<close> after the copy loop and the two cross-origin headers.\<close>
  "baseHeaders res =
     (let copied =
            fold (\<lambda>(k, v) out. if toLowerCase k \<in> set droppedHeaders then out else setProp k v out)
              (fold (\<lambda>(k, v) obj. setProp k v obj) (res_headers res) []) [];
          withOrigin = setProp ''access-control-allow-origin'' ''*'' copied
      in setProp ''access-control-expose-headers'' (join '','' (map fst withOrigin)) withOrigin)"

definition respond :: "platform \<Rightarrow> string \<Rightarrow> upstream \<Rightarrow> response" where
  \<comment> \<open>From the upstream response to the returned object: the two branches on the content
      type.\<close>
  "respond pf target res =
     (let outHeaders = baseHeaders res;
          contentType = orEmpty (map_of (res_headers res) ''content-type'')
      in if isHtmlContentType (Some contentType)
         then (let baseUrl = (if res_url res \<noteq> [] then res_url res else target);
                   doc = transformHtml (URL_href_of pf) baseUrl
                           (cheerio_load pf (text_of pf (res_body res)))
               in \<lparr>statusCode = status res,
                   out_headers = Some (setProp ''content-type'' ''text/html; charset=utf-8'' outHeaders),
                   out_body = cheerio_html pf doc,
                   out_isBase64Encoded = False\<rparr>)
         else \<lparr>statusCode = status res,
               out_headers =
                 Some (if contentType \<noteq> [] then setProp ''content-type'' contentType outHeaders
                       else outHeaders),
               out_body = base64 (res_body res),
               out_isBase64Encoded = True\<rparr>)"

definition proxyError :: "string \<Rightarrow> response" where
  \<comment> \<open>The response of the outer \<open>catch\<close>.\<close>
  "proxyError err =
     \<lparr>statusCode = 500, out_headers = Some [(''access-control-allow-origin'', ''*'')],
      out_body = ''Proxy error: '' @ err, out_isBase64Encoded = False\<rparr>"

definition plain :: "nat \<Rightarrow> string \<Rightarrow> response" where
  \<comment> \<open>A response object with a status code and a body only.\<close>
  "plain st text = \<lparr>statusCode = st, out_headers = None, out_body = text, out_isBase64Encoded = False\<rparr>"

definition handler :: "platform \<Rightarrow> event \<Rightarrow> response" where
  "handler pf ev =
     (if httpMethod ev = Some ''OPTIONS''
      then \<lparr>statusCode = 204,
            out_headers =
              Some [(''access-control-allow-origin'', ''*''),
                    (''access-control-allow-methods'', ''GET,POST,PUT,PATCH,DELETE,OPTIONS''),
                    (''access-control-allow-headers'', ''Content-Type,Authorization,X-Proxy-Key'')],
            out_body = [], out_isBase64Encoded = False\<rparr>
      else (let qs = (case queryStringParameters ev of None \<Rightarrow> Map.empty | Some m \<Rightarrow> m)
            in case extractTarget pf ev qs of
                 Inl err \<Rightarrow> proxyError err
               | Inr None \<Rightarrow> plain 400 ''Missing url parameter''
               | Inr (Some target) \<Rightarrow>
                   if keyRejected pf ev qs then plain 401 ''Unauthorized: invalid proxy key''
                   else (case URL_hostname_of pf target of
                           None \<Rightarrow> plain 400 ''Invalid target URL''
                         | Some hostname \<Rightarrow>
                             if isBlockedHost (Some hostname) then plain 403 ''Forbidden host''
                             else (let incomingHeaders =
                                         (case headers ev of None \<Rightarrow> Map.empty | Some h \<Rightarrow> h)
                                           (''host'' := None, ''Host'' := None);
                                       reqBody =
                                         (if orEmpty (body ev) \<noteq> []
                                             \<and> httpMethod ev \<noteq> Some ''GET''
                                             \<and> httpMethod ev \<noteq> Some ''HEAD''
                                          then Some (if isBase64Encoded ev
                                                     then Base64Body (orEmpty (body ev))
                                                     else TextBody (orEmpty (body ev)))
                                          else None)
                                   in case fetch pf target
                                            \<lparr>fetch_method = (if orEmpty (httpMethod ev) \<noteq> []
                                                              then orEmpty (httpMethod ev) else ''GET''),
                                             fetch_headers = incomingHeaders,
                                             fetch_body = reqBody\<rparr> of
                                        Inl err \<Rightarrow> proxyError err
                                      | Inr res \<Rightarrow> respond pf target res))))"

definition responseHeader :: "response \<Rightarrow> string \<Rightarrow> string option" where
  \<comment> \<open>The value of a header of a response object, if it has the header.\<close>
  "responseHeader r name = (case out_headers r of None \<Rightarrow> None | Some h \<Rightarrow> map_of h name)"

definition examplePlatform :: platform where
  \<comment> \<open>A platform for the closed examples below: no key configured, the URL model of this
      theory, a \<open>JSON.parse\<close> that knows the bodies of the examples, and an upstream that
      answers every request with the same three octets of type \<open>image/png\<close>.\<close>
  "examplePlatform =
     \<lparr>PROXY_KEY = None,
      JSON_parse =
        (\<lambda>s. if s = ''{\"url\":\"https://example.com/\"}''
             then Inr (JObject [(''url'', JString ''https://example.com/'')])
             else if s = ''null'' then Inr JNull
             else Inl ''SyntaxError: Unexpected token''),
      nullPropertyError = ''TypeError: Cannot read properties of null'',
      URL_hostname_of = URL_hostname,
      URL_href_of = URL_href,
      fetch =
        (\<lambda>target init.
           Inr \<lparr>status = 200, res_headers = [(''content-type'', ''image/png'')],
                res_url = target, res_body = [char_of (137 :: nat), CHR ''P'', CHR ''N'']\<rparr>),
      text_of = (\<lambda>bs. bs),
      cheerio_load = (\<lambda>s. [Other s]),
      cheerio_html = (\<lambda>doc. concat (map (\<lambda>n. case n of Other s \<Rightarrow> s | _ \<Rightarrow> []) doc))\<rparr>"


section \<open>Host Guard: the pattern list\<close>

lemmas host_guard_defs =
  isBlockedHost_def BLOCKED_HOST_PATTERNS_def rx_localhost_def rx_127_def rx_10_def
  rx_192_168_def rx_172_def rx_local_def rx_0_def startsWith_def endsWith_def
  canonicalize_def isDigit_def code_def

lemma isBlockedHost_char:
  "isBlockedHost hostname \<longleftrightarrow>
     (case hostname of
        None \<Rightarrow> True
      | Some h \<Rightarrow>
          h = [] \<or> rx_localhost h \<or> rx_127 h \<or> rx_10 h \<or> rx_192_168 h \<or> rx_172 h
          \<or> rx_local h \<or> rx_0 h)"
  by (auto simp add: isBlockedHost_def BLOCKED_HOST_PATTERNS_def split: option.split)

section \<open>Characters, escapes and proxy links\<close>

lemma code_eq_iff: "a = b \<longleftrightarrow> code a = code b"
  unfolding code_def by (metis char_of_char)

lemma code_lt: "code c < 256"
  unfolding code_def by simp

lemma code_char_of: "code (char_of n) = n mod 256"
  unfolding code_def by simp

lemma char_of_code: "char_of (code c) = c"
  unfolding code_def by simp

lemma hexVal_hexDigit: "k < 16 \<Longrightarrow> hexVal (hexDigit k) = Some k"
  by (auto simp: hexVal_def hexDigit_def isDigit_def code_char_of)

lemma hexByte_pct:
  assumes "n < 256"
  shows "hexByte (hexDigit (n div 16)) (hexDigit (n mod 16)) = Some n"
proof -
  have "n div 16 < 16" using assms by simp
  then show ?thesis by (simp add: hexByte_def hexVal_hexDigit)
qed

lemma unescaped_not_pct: "isUnescaped c \<Longrightarrow> c \<noteq> CHR ''%''"
  by (auto simp: isUnescaped_def isAlpha_def isDigit_def code_def)

lemma decode_pctEncode:
  "decodeURIComponent (pctEncode c @ s) = map_option ((#) c) (decodeURIComponent s)"
proof (cases "code c < 128")
  case True
  then show ?thesis
    by (simp add: pctEncode_def utf8_def pctByte_def hexByte_pct char_of_code)
next
  case False
  let ?n = "code c"
  have n: "128 \<le> ?n" "?n < 256" using False code_lt[of c] by auto
  have b1: "192 + ?n div 64 < 256" "194 \<le> 192 + ?n div 64" "192 + ?n div 64 \<le> 195"
    using n by auto
  have b2: "128 + ?n mod 64 < 256" "128 \<le> 128 + ?n mod 64" "128 + ?n mod 64 < 192"
    by auto
  have bk: "(192 + ?n div 64 - 192) * 64 + (128 + ?n mod 64 - 128) = ?n"
    by simp
  show ?thesis
    using False b1 b2
    by (simp add: pctEncode_def utf8_def pctByte_def hexByte_pct bk char_of_code
        del: decodeURIComponent.simps)
      (simp add: hexByte_pct bk char_of_code)
qed

lemma decode_encode: "decodeURIComponent (encodeURIComponent s) = Some s"
proof (induction s)
  case Nil
  then show ?case by (simp add: encodeURIComponent_def)
next
  case (Cons c s)
  have step: "encodeURIComponent (c # s) =
      (if isUnescaped c then [c] else pctEncode c) @ encodeURIComponent s"
    by (simp add: encodeURIComponent_def)
  show ?case
  proof (cases "isUnescaped c")
    case True
    then show ?thesis using Cons unescaped_not_pct[OF True] by (simp add: step)
  next
    case False
    then show ?thesis using Cons by (simp add: step decode_pctEncode)
  qed
qed





lemma hexDigit_unescaped: "k < 16 \<Longrightarrow> isUnescaped (hexDigit k)"
  by (auto simp: hexDigit_def isUnescaped_def isAlpha_def isDigit_def code_def)

lemma pctByte_chars: "n < 256 \<Longrightarrow> c \<in> set (pctByte n) \<Longrightarrow> isUriChar c"
proof -
  assume n: "n < 256" and c: "c \<in> set (pctByte n)"
  have "n div 16 < 16" using n by simp
  then show ?thesis using c
    by (auto simp: pctByte_def isUriChar_def hexDigit_unescaped)
qed

lemma pctEncode_chars: "c \<in> set (pctEncode d) \<Longrightarrow> isUriChar c"
proof -
  assume c: "c \<in> set (pctEncode d)"
  have b: "code d < 256" "192 + code d div 64 < 256" "128 + code d mod 64 < 256"
    using code_lt[of d] by auto
  from c have "c \<in> set (pctByte (code d)) \<or> c \<in> set (pctByte (192 + code d div 64))
      \<or> c \<in> set (pctByte (128 + code d mod 64))"
    by (auto simp: pctEncode_def utf8_def split: if_splits)
  then show ?thesis using b pctByte_chars by blast
qed

lemma encode_chars: "c \<in> set (encodeURIComponent s) \<Longrightarrow> isUriChar c"
  by (auto simp: encodeURIComponent_def isUriChar_def dest: pctEncode_chars split: if_splits)

lemma uriChar_facts:
  assumes "isUriChar c"
  shows "\<not> isC0OrSpace c" "notHash c" "c \<noteq> CHR ''&''" "c \<noteq> CHR ''#''"
  using assms
  by (auto simp: isUriChar_def isUnescaped_def isAlpha_def isDigit_def isC0OrSpace_def
      notHash_def code_def)

lemma sanitize_id:
  assumes "\<forall>c\<in>set s. \<not> isC0OrSpace c"
  shows "sanitize s = s"
proof -
  have a: "dropWhile isC0OrSpace s = s" using assms by (cases s) auto
  have "\<forall>c\<in>set (rev s). \<not> isC0OrSpace c" using assms by simp
  then have b: "dropWhile isC0OrSpace (rev s) = rev s"
    by (cases "rev s") auto
  have c: "filter (\<lambda>c. \<not> isTabOrNewline c) s = s"
    using assms by (auto simp: filter_id_conv isTabOrNewline_def isC0OrSpace_def)
  show ?thesis by (simp add: sanitize_def a b c)
qed

lemma length_pctEncode: "1 \<le> length (pctEncode c)"
  by (simp add: pctEncode_def utf8_def pctByte_def)

lemma length_encodeWith: "length s \<le> length (encodeWith S s)"
proof (induction s)
  case Nil
  then show ?case by (simp add: encodeWith_def)
next
  case (Cons c s)
  then show ?case using length_pctEncode[of c] by (auto simp: encodeWith_def)
qed

lemma length_encodeURIComponent: "length s \<le> length (encodeURIComponent s)"
proof (induction s)
  case Nil
  then show ?case by (simp add: encodeURIComponent_def)
next
  case (Cons c s)
  then show ?case using length_pctEncode[of c] by (auto simp: encodeURIComponent_def)
qed

lemma parseRelative_proxy_link:
  assumes "\<forall>c\<in>set e. isUriChar c"
  shows "parseRelative b (''/.netlify/functions/proxy?url='' @ e) =
         Ok (b\<lparr>path := [''.netlify'', ''functions'', ''proxy''],
                query := Some (encodeWith inSpecialQuerySet (''url='' @ e)),
                fragment := None\<rparr>)"
proof -
  have t: "takeWhile notHash e = e" "dropWhile notHash e = []"
    using assms uriChar_facts(2) by auto
  show ?thesis
    by (simp add: parseRelative_def isSlash_def parsePath_def notQueryOrFragment_def
        parseTail_def t encodeWith_def inPathSet_def inQuerySet_def inC0ControlSet_def
        isDoubleDot_def isSingleDot_def asciiLower_def code_def notHash_def pctEncode_def)
qed


lemma makeProxyUrl_chars: "\<forall>c\<in>set (makeProxyUrl r). \<not> isC0OrSpace c"
proof -
  have "\<forall>c\<in>set (encodeURIComponent r). \<not> isC0OrSpace c"
    using encode_chars uriChar_facts(1) by blast
  then show ?thesis
    by (auto simp: makeProxyUrl_def isC0OrSpace_def code_def)
qed

lemma basicParse_proxy_link:
  "basicParse (Some b) (makeProxyUrl r) =
     Ok (b\<lparr>path := [''.netlify'', ''functions'', ''proxy''],
            query := Some (encodeWith inSpecialQuerySet (''url='' @ encodeURIComponent r)),
            fragment := None\<rparr>)"
proof -
  have s: "sanitize (makeProxyUrl r) = makeProxyUrl r"
    using makeProxyUrl_chars by (rule sanitize_id)
  have n: "splitScheme (makeProxyUrl r) = None"
    by (simp add: splitScheme_def makeProxyUrl_def isAlpha_def code_def)
  have e: "\<forall>c\<in>set (encodeURIComponent r). isUriChar c"
    using encode_chars by blast
  show ?thesis
    unfolding basicParse_def s Let_def n
    using parseRelative_proxy_link[OF e, of b] by (simp add: makeProxyUrl_def)
qed

lemma URL_href_proxy_link_longer:
  assumes "URL_href (makeProxyUrl r) b = Some r'"
  shows "length (makeProxyUrl r) < length r'"
proof -
  from assms obtain bu where bu: "basicParse None b = Ok bu"
    by (auto simp: URL_href_def split: outcome.splits)
  let ?q = "encodeWith inSpecialQuerySet (''url='' @ encodeURIComponent r)"
  have r': "r' = serialize (bu\<lparr>path := [''.netlify'', ''functions'', ''proxy''],
                               query := Some ?q, fragment := None\<rparr>)"
    using assms by (simp add: URL_href_def bu basicParse_proxy_link)
  have q: "length (''url='' @ encodeURIComponent r) \<le> length ?q"
    by (rule length_encodeWith)
  have "length (makeProxyUrl r) = 30 + length (encodeURIComponent r)"
    by (simp add: makeProxyUrl_def)
  moreover have "33 + length (encodeURIComponent r) \<le> length r'"
    using q by (simp add: r' serialize_def)
  ultimately show ?thesis by simp
qed

lemma URL_href_no_fixpoint: "URL_href (makeProxyUrl r) b \<noteq> Some r"
proof
  assume "URL_href (makeProxyUrl r) b = Some r"
  then have "length (makeProxyUrl r) < length r" by (rule URL_href_proxy_link_longer)
  moreover have "length r \<le> length (makeProxyUrl r)"
    using length_encodeURIComponent[of r] by (simp add: makeProxyUrl_def)
  ultimately show False by simp
qed

lemma urlParam_makeProxyUrl: "urlParam (makeProxyUrl t) = Some (encodeURIComponent t)"
proof -
  have "\<forall>c\<in>set (encodeURIComponent t). c \<noteq> CHR ''&'' \<and> c \<noteq> CHR ''#''"
    using encode_chars uriChar_facts(3,4) by blast
  then have "takeWhile (\<lambda>c. c \<noteq> CHR ''&'' \<and> c \<noteq> CHR ''#'') (encodeURIComponent t)
      = encodeURIComponent t"
    by (simp add: takeWhile_eq_all_conv)
  then show ?thesis
    by (simp add: urlParam_def makeProxyUrl_def startsWith_def)
qed

lemma embeddedTarget_makeProxyUrl: "embeddedTarget (makeProxyUrl t) = Some t"
  by (simp add: embeddedTarget_def urlParam_makeProxyUrl decode_encode)

lemma dropWhile_snoc: "\<not> P c \<Longrightarrow> \<exists>ys. dropWhile P (xs @ [c]) = ys @ [c]"
  by (induction xs) auto

lemma trim_head:
  assumes "\<not> isWhiteSpace c"
  shows "\<exists>rest. trim (c # s) = c # rest"
proof -
  obtain ys where "dropWhile isWhiteSpace (rev s @ [c]) = ys @ [c]"
    using dropWhile_snoc[of isWhiteSpace c "rev s"] assms by blast
  then show ?thesis using assms by (simp add: trim_def)
qed

lemma shouldRewriteAttr_iff:
  "shouldRewriteAttr (Some v) \<longleftrightarrow> v \<noteq> [] \<and> \<not> nonNavigable v"
  by (simp add: shouldRewriteAttr_def nonNavigable_def Let_def)

lemma nonNavigable_makeProxyUrl: "\<not> nonNavigable (makeProxyUrl t)"
proof -
  have "\<not> isWhiteSpace (CHR ''/'')" by (simp add: isWhiteSpace_def code_def)
  then obtain rest where
    "trim (CHR ''/'' # ''.netlify/functions/proxy?url='' @ encodeURIComponent t) = CHR ''/'' # rest"
    using trim_head by blast
  then show ?thesis
    by (simp add: nonNavigable_def makeProxyUrl_def toLowerCase_def startsWith_def
        lowerChar_def code_def)
qed

lemma maybeRewriteUrl_cases:
  "maybeRewriteUrl href attrValue baseUrl =
     (case attrValue of
        None \<Rightarrow> None
      | Some v \<Rightarrow>
          if v = [] \<or> nonNavigable v then Some v
          else (case href v baseUrl of None \<Rightarrow> Some v | Some r \<Rightarrow> Some (makeProxyUrl r)))"
  by (simp add: maybeRewriteUrl_def shouldRewriteAttr_iff split: option.split)


section \<open>URL Rewriter: when a value is left unchanged\<close>

text \<open>
  C6. \<open>maybeRewriteUrl\<close> returns the attribute value unchanged in exactly these cases: the
  value is null or empty; its trimmed, lower-cased form starts with \<open>data:\<close>,
  \<open>javascript:\<close>, \<open>mailto:\<close> or \<open>#\<close>; or its resolution against the base URL fails. It
  never raises: in every other case the result is the proxy link of the resolved URL. The
  platform's URL constructor is assumed never to resolve the proxy link of a URL to that
  same URL.
\<close>

theorem C6_unchanged_exactly:
  assumes "\<forall>r. href (makeProxyUrl r) baseUrl \<noteq> Some r"
  shows "(maybeRewriteUrl href attrValue baseUrl = attrValue \<longleftrightarrow>
            attrValue = None \<or>
            (\<exists>v. attrValue = Some v \<and> (v = [] \<or> nonNavigable v \<or> href v baseUrl = None)))
         \<and> (maybeRewriteUrl href attrValue baseUrl = attrValue \<or>
            (\<exists>v r. attrValue = Some v \<and> href v baseUrl = Some r \<and>
                   maybeRewriteUrl href attrValue baseUrl = Some (makeProxyUrl r)))"
proof (cases attrValue)
  case None
  then show ?thesis by (simp add: maybeRewriteUrl_cases)
next
  case (Some v)
  show ?thesis
  proof (cases "href v baseUrl")
    case None
    then show ?thesis using Some by (simp add: maybeRewriteUrl_cases)
  next
    case (Some r)
    have "makeProxyUrl r \<noteq> v"
    proof
      assume "makeProxyUrl r = v"
      then have "href (makeProxyUrl r) baseUrl = Some r" using Some by simp
      then show False using assms by simp
    qed
    then show ?thesis using Some \<open>attrValue = Some v\<close>
      by (auto simp: maybeRewriteUrl_cases)
  qed
qed

theorem C6_unchanged_exactly_witness:
  "(\<forall>r. URL_href (makeProxyUrl r) ''https://example.com/'' \<noteq> Some r)
   \<and> maybeRewriteUrl URL_href (Some ''#top'') ''https://example.com/'' = Some ''#top''
   \<and> maybeRewriteUrl URL_href (Some ''http://'') ''https://example.com/'' = Some ''http://''
   \<and> maybeRewriteUrl URL_href (Some ''/about'') ''https://example.com/'' \<noteq> Some ''/about''"
proof -
  have h: "\<forall>r. URL_href (makeProxyUrl r) ''https://example.com/'' \<noteq> Some r"
    using URL_href_no_fixpoint by blast
  have n1: "nonNavigable ''#top''" by code_simp
  have n2: "URL_href ''http://'' ''https://example.com/'' = None" by code_simp
  have n3: "\<not> nonNavigable ''/about''" by code_simp
  have n4: "URL_href ''/about'' ''https://example.com/'' \<noteq> None" by code_simp
  show ?thesis
    using h n1 n2 n3 n4
      C6_unchanged_exactly[of URL_href "''https://example.com/''" "Some ''#top''"]
      C6_unchanged_exactly[of URL_href "''https://example.com/''" "Some ''http://''"]
      C6_unchanged_exactly[of URL_href "''https://example.com/''" "Some ''/about''"]
    by simp
qed


section \<open>URL Rewriter: what a proxy link carries\<close>

lemma rewriteTarget_resolved:
  assumes "shouldRewriteAttr (Some v)" "href v b = Some r"
  shows "maybeRewriteUrl href (Some v) b = Some (makeProxyUrl r)"
    and "rewriteTarget href v b = Some r"
  using assms
  by (simp_all add: rewriteTarget_def maybeRewriteUrl_cases shouldRewriteAttr_iff
      embeddedTarget_makeProxyUrl)

text \<open>
  C7. A rewritable attribute value is resolved against the base URL by the platform's URL
  constructor, and the rewriter's output is the proxy link of the resolved URL, which its
  \<open>url\<close> parameter gives back. With the URL model, the value \<open>../img/a.png\<close> on the base
  \<open>https://example.com/dir/page.html\<close> resolves to \<open>https://example.com/img/a.png\<close>, and
  the rewriter's output embeds this target.
\<close>

theorem C7_resolved_against_base:
  "(shouldRewriteAttr (Some v) \<and> href v baseUrl = Some r \<longrightarrow>
      maybeRewriteUrl href (Some v) baseUrl = Some (makeProxyUrl r)
      \<and> embeddedTarget (makeProxyUrl r) = Some r)
   \<and> URL_href ''../img/a.png'' ''https://example.com/dir/page.html''
       = Some ''https://example.com/img/a.png''
   \<and> maybeRewriteUrl URL_href (Some ''../img/a.png'') ''https://example.com/dir/page.html''
       = Some ''/.netlify/functions/proxy?url=https%3A%2F%2Fexample.com%2Fimg%2Fa.png''
   \<and> embeddedTarget ''/.netlify/functions/proxy?url=https%3A%2F%2Fexample.com%2Fimg%2Fa.png''
       = Some ''https://example.com/img/a.png''"
proof -
  have a: "URL_href ''../img/a.png'' ''https://example.com/dir/page.html''
       = Some ''https://example.com/img/a.png''" by code_simp
  have b: "maybeRewriteUrl URL_href (Some ''../img/a.png'') ''https://example.com/dir/page.html''
       = Some ''/.netlify/functions/proxy?url=https%3A%2F%2Fexample.com%2Fimg%2Fa.png''"
    by code_simp
  have c: "embeddedTarget ''/.netlify/functions/proxy?url=https%3A%2F%2Fexample.com%2Fimg%2Fa.png''
       = Some ''https://example.com/img/a.png''" by code_simp
  show ?thesis using a b c rewriteTarget_resolved(1)[of v href baseUrl r]
    by (simp add: embeddedTarget_makeProxyUrl)
qed

theorem C7_resolved_against_base_witness:
  "shouldRewriteAttr (Some ''//cdn.example.org/x.js'')
   \<and> URL_href ''//cdn.example.org/x.js'' ''https://example.com/dir/page.html''
       = Some ''https://cdn.example.org/x.js''
   \<and> maybeRewriteUrl URL_href (Some ''//cdn.example.org/x.js'') ''https://example.com/dir/page.html''
       = Some (makeProxyUrl ''https://cdn.example.org/x.js'')
   \<and> embeddedTarget (makeProxyUrl ''https://cdn.example.org/x.js'')
       = Some ''https://cdn.example.org/x.js''"
proof -
  have a: "shouldRewriteAttr (Some ''//cdn.example.org/x.js'')" by code_simp
  have b: "URL_href ''//cdn.example.org/x.js'' ''https://example.com/dir/page.html''
       = Some ''https://cdn.example.org/x.js''" by code_simp
  show ?thesis
    using a b
      C7_resolved_against_base[of "''//cdn.example.org/x.js''" URL_href
        "''https://example.com/dir/page.html''" "''https://cdn.example.org/x.js''"]
    by simp
qed

text \<open>
  C4, as stated, fails: the absolute URL \<open>https://example.com\<close> comes back as
  \<open>https://example.com/\<close>, the constructor's normalised form, and the absolute URL
  \<open>mailto:a@b.com\<close> is not rewritten at all, so its result carries no target.
\<close>

theorem C4_counterexample:
  "rewriteTarget URL_href ''https://example.com'' ''https://example.com/dir/page.html''
     = Some ''https://example.com/''
   \<and> rewriteTarget URL_href ''https://example.com'' ''https://example.com/dir/page.html''
     \<noteq> Some ''https://example.com''
   \<and> rewriteTarget URL_href ''mailto:a@b.com'' ''https://example.com/dir/page.html''
     \<noteq> Some ''mailto:a@b.com''"
  by code_simp

text \<open>
  C4, amended. For every rewritable value that the URL constructor resolves against the
  base URL, percent-decoding the \<open>url\<close> parameter of the rewriter's result yields exactly
  the resolved, normalised URL; it yields the value itself exactly when the value is
  already in that normalised form.
\<close>

theorem C4_decodes_to_resolved:
  assumes "shouldRewriteAttr (Some u)" and "href u baseUrl = Some r"
  shows "rewriteTarget href u baseUrl = Some r
         \<and> (rewriteTarget href u baseUrl = Some u \<longleftrightarrow> r = u)"
  using rewriteTarget_resolved(2)[of u href baseUrl r] assms by auto

theorem C4_decodes_to_resolved_witness:
  "shouldRewriteAttr (Some ''https://example.com/a?b=c'')
   \<and> URL_href ''https://example.com/a?b=c'' ''https://example.org/'' = Some ''https://example.com/a?b=c''
   \<and> rewriteTarget URL_href ''https://example.com/a?b=c'' ''https://example.org/''
       = Some ''https://example.com/a?b=c''"
proof -
  have a: "shouldRewriteAttr (Some ''https://example.com/a?b=c'')" by code_simp
  have b: "URL_href ''https://example.com/a?b=c'' ''https://example.org/''
       = Some ''https://example.com/a?b=c''" by code_simp
  show ?thesis
    using a b
      C4_decodes_to_resolved[of "''https://example.com/a?b=c''" URL_href "''https://example.org/''"
        "''https://example.com/a?b=c''"]
    by simp
qed

text \<open>
  C5, as stated, fails: rewriting \<open>/about\<close> on the base \<open>https://example.com/\<close> gives a
  proxy link for \<open>https://example.com/about\<close>; rewriting that link again gives a link whose
  \<open>url\<close> parameter decodes to the first link's own absolute form, with the first target
  encoded a second time inside it.
\<close>

theorem C5_counterexample:
  "maybeRewriteUrl URL_href (Some ''/about'') ''https://example.com/''
     = Some ''/.netlify/functions/proxy?url=https%3A%2F%2Fexample.com%2Fabout''
   \<and> rewriteTarget URL_href ''/about'' ''https://example.com/'' = Some ''https://example.com/about''
   \<and> rewriteTarget URL_href ''/.netlify/functions/proxy?url=https%3A%2F%2Fexample.com%2Fabout''
         ''https://example.com/''
     = Some ''https://example.com/.netlify/functions/proxy?url=https%3A%2F%2Fexample.com%2Fabout''
   \<and> rewriteTarget URL_href ''/.netlify/functions/proxy?url=https%3A%2F%2Fexample.com%2Fabout''
         ''https://example.com/''
     \<noteq> Some ''https://example.com/about''"
  by code_simp

text \<open>
  C5, amended. The rewriter treats a proxy link like any other rewritable reference. When
  the link resolves against the base URL, the second result is the proxy link of that
  resolved URL, and its \<open>url\<close> parameter decodes to it; with the URL model this is never
  the first target. Only when the link does not resolve is it returned unchanged, and then
  it still decodes to the first target.
\<close>

theorem C5_second_rewrite:
  "(href (makeProxyUrl a1) baseUrl = Some a2 \<longrightarrow>
      maybeRewriteUrl href (Some (makeProxyUrl a1)) baseUrl = Some (makeProxyUrl a2)
      \<and> rewriteTarget href (makeProxyUrl a1) baseUrl = Some a2)
   \<and> (href (makeProxyUrl a1) baseUrl = None \<longrightarrow>
      maybeRewriteUrl href (Some (makeProxyUrl a1)) baseUrl = Some (makeProxyUrl a1)
      \<and> rewriteTarget href (makeProxyUrl a1) baseUrl = Some a1)
   \<and> (URL_href (makeProxyUrl a1) baseUrl = Some a2 \<longrightarrow> a2 \<noteq> a1)"
proof -
  have ne: "makeProxyUrl a1 \<noteq> []" by (simp add: makeProxyUrl_def)
  have sr: "shouldRewriteAttr (Some (makeProxyUrl a1))"
    using ne nonNavigable_makeProxyUrl by (simp add: shouldRewriteAttr_iff)
  have one: "href (makeProxyUrl a1) baseUrl = Some a2 \<longrightarrow>
      maybeRewriteUrl href (Some (makeProxyUrl a1)) baseUrl = Some (makeProxyUrl a2)
      \<and> rewriteTarget href (makeProxyUrl a1) baseUrl = Some a2"
    using rewriteTarget_resolved[of "makeProxyUrl a1" href baseUrl a2] sr by blast
  have two: "href (makeProxyUrl a1) baseUrl = None \<longrightarrow>
      maybeRewriteUrl href (Some (makeProxyUrl a1)) baseUrl = Some (makeProxyUrl a1)
      \<and> rewriteTarget href (makeProxyUrl a1) baseUrl = Some a1"
    using ne nonNavigable_makeProxyUrl
    by (simp add: rewriteTarget_def maybeRewriteUrl_cases embeddedTarget_makeProxyUrl)
  have three: "URL_href (makeProxyUrl a1) baseUrl = Some a2 \<longrightarrow> a2 \<noteq> a1"
    using URL_href_no_fixpoint by blast
  show ?thesis using one two three by blast
qed

theorem C5_second_rewrite_witness:
  "URL_href (makeProxyUrl ''https://example.com/about'') ''https://example.com/''
     = Some ''https://example.com/.netlify/functions/proxy?url=https%3A%2F%2Fexample.com%2Fabout''
   \<and> rewriteTarget URL_href (makeProxyUrl ''https://example.com/about'') ''https://example.com/''
     = Some ''https://example.com/.netlify/functions/proxy?url=https%3A%2F%2Fexample.com%2Fabout''
   \<and> URL_href (makeProxyUrl ''https://example.com/about'') ''not a url'' = None
   \<and> rewriteTarget URL_href (makeProxyUrl ''https://example.com/about'') ''not a url''
     = Some ''https://example.com/about''"
proof -
  have a: "URL_href (makeProxyUrl ''https://example.com/about'') ''https://example.com/''
     = Some ''https://example.com/.netlify/functions/proxy?url=https%3A%2F%2Fexample.com%2Fabout''"
    by code_simp
  have b: "URL_href (makeProxyUrl ''https://example.com/about'') ''not a url'' = None"
    by code_simp
  show ?thesis
    using a b
      C5_second_rewrite[of URL_href "''https://example.com/about''" "''https://example.com/''"
        "''https://example.com/.netlify/functions/proxy?url=https%3A%2F%2Fexample.com%2Fabout''"]
      C5_second_rewrite[of URL_href "''https://example.com/about''" "''not a url''"]
    by simp
qed


section \<open>Response Transformer: HTML or opaque bytes\<close>

lemma splitWhen_head: "\<exists>rest. splitWhen P s = takeWhile (\<lambda>c. \<not> P c) s # rest"
proof (induction s)
  case Nil
  then show ?case by simp
next
  case (Cons c s)
  then obtain rest where "splitWhen P s = takeWhile (\<lambda>c. \<not> P c) s # rest" by blast
  then show ?case by simp
qed

lemma isHtmlContentType_iff:
  "isHtmlContentType ct \<longleftrightarrow>
     (\<exists>s. ct = Some s \<and> toLowerCase (trim (takeWhile (\<lambda>c. c \<noteq> CHR '';'') s)) = ''text/html'')"
proof (cases ct)
  case None
  then show ?thesis by (simp add: isHtmlContentType_def)
next
  case (Some s)
  obtain rest where r: "split CHR '';'' s = takeWhile (\<lambda>c. c \<noteq> CHR '';'') s # rest"
    using splitWhen_head[of "\<lambda>c. c = CHR '';''" s] by (auto simp: split_def)
  have e: "toLowerCase (trim []) \<noteq> ''text/html''"
    by (simp add: toLowerCase_def trim_def)
  show ?thesis using Some r e by (auto simp: isHtmlContentType_def)
qed

lemma map_of_setProp: "map_of (setProp k v kvs) k = Some v"
  by (induction kvs) auto

lemma b64_bounds:
  assumes "n < 64"
  shows "b64val (b64 n) = Some n" and "b64 n \<noteq> CHR ''=''"
proof -
  have c: "code (b64 n) =
      (if n < 26 then 65 + n else if n < 52 then 71 + n else if n < 62 then n - 4
       else if n = 62 then 43 else 47)"
    using assms by (auto simp: b64_def code_char_of) (simp_all add: code_def)
  have p: "b64 n = CHR ''+'' \<longleftrightarrow> code (b64 n) = 43" "b64 n = CHR ''/'' \<longleftrightarrow> code (b64 n) = 47"
    "b64 n = CHR ''='' \<longleftrightarrow> code (b64 n) = 61"
    by (simp_all add: code_eq_iff[of "b64 n"] code_def)
  show "b64val (b64 n) = Some n"
    unfolding b64val_def p c using assms by auto
  show "b64 n \<noteq> CHR ''=''"
    unfolding p c using assms by auto
qed



lemma byte_arith1:
  fixes a b :: nat
  assumes "b < 256"
  shows "a div 4 * 4 + (a mod 4 * 16 + b div 16) div 16 = a"
proof -
  have "b div 16 < 16" using assms by simp
  then have "(a mod 4 * 16 + b div 16) div 16 = a mod 4" by simp
  then show ?thesis by simp
qed

lemma sextet_bounds:
  fixes a b c :: nat
  assumes "a < 256" "b < 256" "c < 256"
  shows "a div 4 < 64" "a mod 4 * 16 + b div 16 < 64" "b mod 16 * 4 + c div 64 < 64" "c mod 64 < 64"
    "a mod 4 * 16 < 64" "b mod 16 * 4 < 64"
proof -
  have "a mod 4 < 4" "b div 16 < 16" "b mod 16 < 16" "c div 64 < 4" using assms by simp_all
  then show "a div 4 < 64" "a mod 4 * 16 + b div 16 < 64" "b mod 16 * 4 + c div 64 < 64" "c mod 64 < 64"
    "a mod 4 * 16 < 64" "b mod 16 * 4 < 64"
    using assms by simp_all
qed

lemma base64Decode_base64: "base64Decode (base64 bs) = Some bs"
proof (induction bs rule: base64.induct)
  case 1
  then show ?case by simp
next
  case (2 a)
  have a: "code a < 256" by (rule code_lt)
  have s: "code a div 4 < 64" "code a mod 4 * 16 < 64"
    using sextet_bounds[OF a a a] by simp_all
  have v: "code a div 4 * 4 + (code a mod 4 * 16) div 16 = code a" by simp
  show ?case
    by (simp add: b64_bounds[OF s(1)] b64_bounds[OF s(2)] v char_of_code)
next
  case (3 a b)
  have a: "code a < 256" and b: "code b < 256" by (rule code_lt)+
  have s: "code a div 4 < 64" "code a mod 4 * 16 + code b div 16 < 64" "code b mod 16 * 4 < 64"
    using sextet_bounds[OF a b b] by simp_all
  have v: "code a div 4 * 4 + (code a mod 4 * 16 + code b div 16) div 16 = code a"
    using byte_arith1[OF b] by simp
  have "code b div 16 < 16" using b by simp
  then have w: "(code a mod 4 * 16 + code b div 16) mod 16 * 16 + code b mod 16 * 4 div 4 = code b"
    by simp
  have z: "code b div 16 div 16 = 0" "code b div 16 mod 16 * 16 + code b mod 16 = code b"
    using b by simp_all
  show ?case
    by (simp add: b64_bounds[OF s(1)] b64_bounds[OF s(2)] b64_bounds[OF s(3)] v w z char_of_code)
next
  case (4 a b c r)
  have a: "code a < 256" and b: "code b < 256" and c: "code c < 256" by (rule code_lt)+
  have s: "code a div 4 < 64" "code a mod 4 * 16 + code b div 16 < 64"
    "code b mod 16 * 4 + code c div 64 < 64" "code c mod 64 < 64"
    using sextet_bounds[OF a b c] by simp_all
  have z: "code b div 16 div 16 = 0" "code c div 64 div 4 = 0"
    "code b div 16 mod 16 * 16 + code b mod 16 = code b"
    "code c div 64 mod 4 * 64 + code c mod 64 = code c"
    using b c by simp_all
  show ?case
    using 4
    by (simp add: b64_bounds[OF s(1)] b64_bounds[OF s(2)] b64_bounds[OF s(3)] b64_bounds[OF s(4)]
        z char_of_code)
qed

text \<open>
  C9. A response is treated as HTML exactly when the text of its content type before the
  first semicolon, trimmed and lower-cased, is \<open>text/html\<close>; a missing content type is not
  HTML. Every other response is returned with the \<open>isBase64Encoded\<close> flag set, with the
  upstream status, with a body whose base64 decoding is the upstream octets, and with the
  upstream content type when there is one.
\<close>

theorem C9_content_type_branch:
  "(isHtmlContentType ct \<longleftrightarrow>
      (\<exists>s. ct = Some s \<and> toLowerCase (trim (takeWhile (\<lambda>c. c \<noteq> CHR '';'') s)) = ''text/html''))
   \<and> \<not> isHtmlContentType None
   \<and> (out_isBase64Encoded (respond pf target res) \<longleftrightarrow>
        \<not> isHtmlContentType (Some (orEmpty (map_of (res_headers res) ''content-type''))))
   \<and> (\<not> isHtmlContentType (Some (orEmpty (map_of (res_headers res) ''content-type''))) \<longrightarrow>
        out_body (respond pf target res) = base64 (res_body res)
        \<and> base64Decode (out_body (respond pf target res)) = Some (res_body res)
        \<and> statusCode (respond pf target res) = status res
        \<and> (\<forall>t. map_of (res_headers res) ''content-type'' = Some t \<and> t \<noteq> [] \<longrightarrow>
               responseHeader (respond pf target res) ''content-type'' = Some t))"
proof -
  have a: "\<not> isHtmlContentType None" by (simp add: isHtmlContentType_def)
  show ?thesis
    using isHtmlContentType_iff[of ct] a
    by (auto simp: respond_def Let_def base64Decode_base64 responseHeader_def map_of_setProp
        orEmpty_def)
qed

theorem C9_content_type_branch_witness:
  "\<not> isHtmlContentType (Some (orEmpty (map_of [(''content-type'', ''image/png'')] ''content-type'')))
   \<and> out_body (respond examplePlatform ''https://example.com/a.png''
        \<lparr>status = 200, res_headers = [(''content-type'', ''image/png'')],
         res_url = ''https://example.com/a.png'',
         res_body = [char_of (137 :: nat), CHR ''P'', CHR ''N'', CHR ''G'']\<rparr>) = ''iVBORw==''
   \<and> base64Decode ''iVBORw=='' = Some [char_of (137 :: nat), CHR ''P'', CHR ''N'', CHR ''G'']
   \<and> responseHeader (respond examplePlatform ''https://example.com/a.png''
        \<lparr>status = 200, res_headers = [(''content-type'', ''image/png'')],
         res_url = ''https://example.com/a.png'',
         res_body = [char_of (137 :: nat), CHR ''P'', CHR ''N'', CHR ''G'']\<rparr>) ''content-type''
       = Some ''image/png''"
proof -
  let ?res = "\<lparr>status = 200, res_headers = [(''content-type'', ''image/png'')],
         res_url = ''https://example.com/a.png'',
         res_body = [char_of (137 :: nat), CHR ''P'', CHR ''N'', CHR ''G'']\<rparr>"
  have n: "\<not> isHtmlContentType (Some (orEmpty (map_of [(''content-type'', ''image/png'')] ''content-type'')))"
    by code_simp
  have b: "base64 [char_of (137 :: nat), CHR ''P'', CHR ''N'', CHR ''G''] = ''iVBORw==''"
    by code_simp
  have d: "base64Decode ''iVBORw=='' = Some [char_of (137 :: nat), CHR ''P'', CHR ''N'', CHR ''G'']"
    by code_simp
  have o: "out_body (respond examplePlatform ''https://example.com/a.png'' ?res) = ''iVBORw==''"
    using n b C9_content_type_branch[of "Some ''image/png''" examplePlatform
        "''https://example.com/a.png''" ?res]
    by (simp del: base64.simps)
  have h: "responseHeader (respond examplePlatform ''https://example.com/a.png'' ?res) ''content-type''
      = Some ''image/png''"
    using n C9_content_type_branch[of "Some ''image/png''" examplePlatform
        "''https://example.com/a.png''" ?res]
    by (simp del: base64.simps)
  show ?thesis using n d o h by blast
qed


section \<open>Request Handler: error responses\<close>

text \<open>
  C3 does not hold of the handler: the responses for a missing target (400), an invalid
  target URL (400), a rejected key (401) and a blocked host (403) are returned with a
  status code and a body only. They have no \<open>headers\<close> property, hence no
  \<open>access-control-allow-origin\<close> header, unlike the response of the outer \<open>catch\<close>.
\<close>

theorem C3_error_responses_lack_header:
  "handler examplePlatform
     \<lparr>httpMethod = Some ''GET'', queryStringParameters = None, headers = None, body = None,
      isBase64Encoded = False\<rparr>
     = \<lparr>statusCode = 400, out_headers = None, out_body = ''Missing url parameter'',
        out_isBase64Encoded = False\<rparr>
   \<and> handler examplePlatform
     \<lparr>httpMethod = Some ''GET'', queryStringParameters = Some [''url'' \<mapsto> ''nonsense''],
      headers = None, body = None, isBase64Encoded = False\<rparr>
     = \<lparr>statusCode = 400, out_headers = None, out_body = ''Invalid target URL'',
        out_isBase64Encoded = False\<rparr>
   \<and> handler (examplePlatform\<lparr>PROXY_KEY := Some ''s3cr3t''\<rparr>)
     \<lparr>httpMethod = Some ''GET'', queryStringParameters = Some [''url'' \<mapsto> ''https://example.com/''],
      headers = None, body = None, isBase64Encoded = False\<rparr>
     = \<lparr>statusCode = 401, out_headers = None, out_body = ''Unauthorized: invalid proxy key'',
        out_isBase64Encoded = False\<rparr>
   \<and> handler examplePlatform
     \<lparr>httpMethod = Some ''GET'', queryStringParameters = Some [''url'' \<mapsto> ''http://localhost/admin''],
      headers = None, body = None, isBase64Encoded = False\<rparr>
     = \<lparr>statusCode = 403, out_headers = None, out_body = ''Forbidden host'',
        out_isBase64Encoded = False\<rparr>
   \<and> responseHeader
       (handler examplePlatform
          \<lparr>httpMethod = Some ''GET'', queryStringParameters = None, headers = None, body = None,
           isBase64Encoded = False\<rparr>) ''access-control-allow-origin'' = None"
  by code_simp

text \<open>
  C10, as stated, fails for a pre-flight request: with the method \<open>OPTIONS\<close>, no \<open>url\<close>
  parameter and a body that is not JSON, the handler answers 204 before it looks at the
  body.
\<close>

theorem C10_counterexample:
  "queryStringParameters
     \<lparr>httpMethod = Some ''OPTIONS'', queryStringParameters = None, headers = None,
      body = Some ''not json'', isBase64Encoded = False\<rparr> = None
   \<and> JSON_parse examplePlatform ''not json'' = Inl ''SyntaxError: Unexpected token''
   \<and> statusCode
       (handler examplePlatform
          \<lparr>httpMethod = Some ''OPTIONS'', queryStringParameters = None, headers = None,
           body = Some ''not json'', isBase64Encoded = False\<rparr>) = 204"
  by code_simp

text \<open>
  C10, amended. If the method is not \<open>OPTIONS\<close>, the query string has no \<open>url\<close> parameter
  and the body is a non-empty string that \<open>JSON.parse\<close> rejects, the handler returns the
  response of the outer \<open>catch\<close>: status 500, not the 400 of a missing target.
\<close>

theorem C10_parse_failure_is_500:
  assumes "httpMethod ev \<noteq> Some ''OPTIONS''"
    and "\<forall>q. queryStringParameters ev = Some q \<longrightarrow> q ''url'' = None"
    and "body ev = Some b" and "b \<noteq> []"
    and "JSON_parse pf b = Inl err"
  shows "handler pf ev = proxyError err \<and> statusCode (handler pf ev) = 500
         \<and> out_body (handler pf ev) \<noteq> ''Missing url parameter''"
proof -
  let ?qs = "case queryStringParameters ev of None \<Rightarrow> Map.empty | Some m \<Rightarrow> m"
  have q: "orEmpty (?qs ''url'') = []"
    using assms(2) by (cases "queryStringParameters ev") (simp_all add: orEmpty_def)
  have t: "extractTarget pf ev ?qs = Inl err"
    using q assms(3,4,5) by (simp add: extractTarget_def orEmpty_def)
  have h: "handler pf ev = proxyError err"
    using assms(1) t by (simp add: handler_def Let_def)
  show ?thesis using h by (simp add: proxyError_def)
qed

theorem C10_parse_failure_is_500_witness:
  "statusCode
     (handler examplePlatform
        \<lparr>httpMethod = Some ''POST'', queryStringParameters = None, headers = None,
         body = Some ''not json'', isBase64Encoded = False\<rparr>) = 500
   \<and> handler examplePlatform
        \<lparr>httpMethod = Some ''POST'', queryStringParameters = None, headers = None,
         body = Some ''not json'', isBase64Encoded = False\<rparr>
       = proxyError ''SyntaxError: Unexpected token''"
proof -
  let ?ev = "\<lparr>httpMethod = Some ''POST'', queryStringParameters = None, headers = None,
         body = Some ''not json'', isBase64Encoded = False\<rparr>"
  have a: "httpMethod ?ev \<noteq> Some ''OPTIONS''" by simp
  have b: "\<forall>q. queryStringParameters ?ev = Some q \<longrightarrow> q ''url'' = None" by simp
  have c: "body ?ev = Some ''not json''" by simp
  have d: "''not json'' \<noteq> []" by simp
  have e: "JSON_parse examplePlatform ''not json'' = Inl ''SyntaxError: Unexpected token''"
    by (simp add: examplePlatform_def)
  show ?thesis using C10_parse_failure_is_500[OF a b c d e] by blast
qed


section \<open>Response Transformer: meta refresh\<close>

text \<open>
  C8 does not hold of the transformer when the content has a second semicolon. The URL
  part is everything after the first semicolon, here \<open>/a;b\<close>, and it is rewritten as a
  whole; but only the second piece of the split content is replaced by it, and the later
  pieces stay in place, so the result is \<open><delay>;url=<rewritten>;b\<close>. With one
  semicolon the result is \<open><delay>;url=<rewritten>\<close>, as the last conjunct shows.
\<close>

theorem C8_refresh_tail_repeated:
  "metaRefresh URL_href ''https://example.com/'' ''meta''
     [(''http-equiv'', ''refresh''), (''content'', ''0;url=/a;b'')]
     = [(''http-equiv'', ''refresh''),
        (''content'', ''0;url=/.netlify/functions/proxy?url=https%3A%2F%2Fexample.com%2Fa%3Bb;b'')]
   \<and> maybeRewriteUrl URL_href (Some ''/a;b'') ''https://example.com/''
     = Some ''/.netlify/functions/proxy?url=https%3A%2F%2Fexample.com%2Fa%3Bb''
   \<and> metaRefresh URL_href ''https://example.com/'' ''meta''
     [(''http-equiv'', ''Refresh''), (''content'', ''5; URL=/next'')]
     = [(''http-equiv'', ''Refresh''),
        (''content'', ''5;url=/.netlify/functions/proxy?url=https%3A%2F%2Fexample.com%2Fnext'')]"
  by code_simp


section \<open>Response Transformer: link-bearing attributes of the output\<close>

lemma concat_map_eq:
  "(\<And>x. x \<in> set xs \<Longrightarrow> f x = g x) \<Longrightarrow> concat (map f xs) = concat (map g xs)"
  by (induction xs) auto

lemma elements_mapElements:
  "elements (mapElements f n) = map (\<lambda>(t, as). (t, f t as)) (elements n)"
proof (induction n)
  case (Element t as cs)
  have "concat (map (\<lambda>c. elements (mapElements f c)) cs)
      = concat (map (\<lambda>c. map (\<lambda>(t, as). (t, f t as)) (elements c)) cs)"
    using Element by (rule concat_map_eq)
  then show ?case by (simp add: map_concat comp_def)
next
  case (Other s)
  then show ?case by simp
qed

lemma docElements_mapElements:
  "docElements (map (mapElements f) doc) = map (\<lambda>(t, as). (t, f t as)) (docElements doc)"
  by (simp add: docElements_def map_concat comp_def elements_mapElements)

lemma elements_banner: "filter (\<lambda>(t, as). isLinkTag t) (elements banner) = []"
  by (simp add: banner_def isLinkTag_def attrs_def)

lemma elements_prependBanner:
  "filter (\<lambda>(t, as). isLinkTag t) (elements (prependBanner n))
   = filter (\<lambda>(t, as). isLinkTag t) (elements n)"
proof (induction n)
  case (Element t as cs)
  have c: "concat (map (\<lambda>c. filter (\<lambda>(t, as). isLinkTag t) (elements (prependBanner c))) cs)
      = concat (map (\<lambda>c. filter (\<lambda>(t, as). isLinkTag t) (elements c)) cs)"
    using Element by (rule concat_map_eq)
  show ?case
  proof (cases "t = ''body''")
    case True
    then show ?thesis using c by (simp add: filter_concat comp_def elements_banner)
  next
    case False
    then show ?thesis using c by (simp add: filter_concat comp_def)
  qed
next
  case (Other s)
  then show ?case by simp
qed

lemma linkElements_prependBanner:
  "linkElements (map prependBanner doc) = linkElements doc"
  by (simp add: linkElements_def docElements_def filter_concat comp_def elements_prependBanner)

lemma docElements_fold:
  "docElements
     (fold (\<lambda>(sel, attr) d. map (mapElements (\<lambda>t as. if t = sel then g attr as else as)) d) tbl doc)
   = map (\<lambda>(t, as). (t, fold (\<lambda>(sel, attr) as. if t = sel then g attr as else as) tbl as))
       (docElements doc)"
proof (induction tbl arbitrary: doc)
  case Nil
  then show ?case by simp
next
  case (Cons p tbl)
  obtain sel attr where p: "p = (sel, attr)" by (cases p)
  let ?F = "\<lambda>(sel, attr) d. map (mapElements (\<lambda>t as. if t = sel then g attr as else as)) d"
  let ?G = "\<lambda>t. \<lambda>(sel, attr) as. if t = sel then g attr as else as"
  let ?doc1 = "map (mapElements (\<lambda>t as. if t = sel then g attr as else as)) doc"
  have "docElements (fold ?F (p # tbl) doc) = docElements (fold ?F tbl ?doc1)"
    by (simp add: p)
  also have "\<dots> = map (\<lambda>(t, as). (t, fold (?G t) tbl as)) (docElements ?doc1)"
    by (rule Cons)
  also have "\<dots> = map (\<lambda>(t, as). (t, fold (?G t) tbl as))
      (map (\<lambda>(t, as). (t, if t = sel then g attr as else as)) (docElements doc))"
    by (simp only: docElements_mapElements)
  also have "\<dots> = map (\<lambda>(t, as). (t, fold (?G t) (p # tbl) as)) (docElements doc)"
    by (auto simp: p)
  finally show ?case .
qed

lemma map_of_setAttr: "map_of (setAttr a v as) a = Some v"
  by (induction as) auto

lemma rewriteAttr_ok:
  "linkAttrOk href b (map_of as a) (map_of (rewriteAttr href b a as) a)"
proof (cases "map_of as a")
  case None
  then show ?thesis by (simp add: linkAttrOk_def rewriteAttr_def)
next
  case (Some v)
  show ?thesis
  proof (cases "v = [] \<or> nonNavigable v \<or> href v b = None")
    case True
    then have "map_of (rewriteAttr href b a as) a = Some v"
      using Some
      by (auto simp: rewriteAttr_def maybeRewriteUrl_cases map_of_setAttr split: option.split)
    then show ?thesis using Some True by (auto simp: linkAttrOk_def linkOk_def)
  next
    case False
    then obtain r where r: "href v b = Some r" by auto
    have "map_of (rewriteAttr href b a as) a = Some (makeProxyUrl r)"
      using Some False r by (simp add: rewriteAttr_def maybeRewriteUrl_cases map_of_setAttr)
    then show ?thesis
      using Some r by (simp add: linkAttrOk_def linkOk_def embeddedTarget_makeProxyUrl)
  qed
qed

lemma fold_attrs_table:
  assumes "(t, a) \<in> set attrs"
  shows "fold (\<lambda>(sel, attr) as. if t = sel then g attr as else as) attrs as = g a as"
  using assms by (auto simp: attrs_def)

lemma metaRefresh_link_tag: "isLinkTag t \<Longrightarrow> metaRefresh href b t as = as"
  by (auto simp: metaRefresh_def isLinkTag_def attrs_def)

lemma filter_map_tag:
  "filter (\<lambda>(t, as). P t) (map (\<lambda>(t, as). (t, f t as)) xs)
   = map (\<lambda>(t, as). (t, f t as)) (filter (\<lambda>(t, as). P t) xs)"
  by (induction xs) auto

lemma linkElements_transformHtml:
  "linkElements (transformHtml href b doc)
   = map (\<lambda>(t, as). (t, fold (\<lambda>(sel, attr) as. if t = sel then rewriteAttr href b attr as else as)
                              attrs as))
       (linkElements doc)"
proof -
  let ?g = "\<lambda>(t, as). (t, fold (\<lambda>(sel, attr) as. if t = sel then rewriteAttr href b attr as else as)
                              attrs as)"
  let ?m = "\<lambda>(t, as). (t, metaRefresh href b t as)"
  let ?p = "\<lambda>(t, as). isLinkTag t"
  have "linkElements (transformHtml href b doc)
      = linkElements (map (mapElements (metaRefresh href b)) (rewriteLinks href b doc))"
    by (simp only: transformHtml_def linkElements_prependBanner)
  also have "\<dots> = filter ?p (map ?m (docElements (rewriteLinks href b doc)))"
    by (simp only: linkElements_def docElements_mapElements)
  also have "\<dots> = filter ?p (map ?m (map ?g (docElements doc)))"
    unfolding rewriteLinks_def by (simp only: docElements_fold)
  also have "\<dots> = map ?m (map ?g (filter ?p (docElements doc)))"
    by (simp only: filter_map_tag)
  also have "\<dots> = map ?g (filter ?p (docElements doc))"
    by (induction "docElements doc") (auto simp: metaRefresh_link_tag)
  finally show ?thesis by (simp add: linkElements_def)
qed

text \<open>
  C1, as stated, fails: an \<open>href\<close> whose value does not resolve (\<open>http://\<close> has no host) and
  an empty \<open>href\<close> are both left as they are, and neither is a non-navigable value nor a
  link to the proxy with a \<open>url\<close> parameter.
\<close>

theorem C1_counterexample:
  "linkElements
     (transformHtml URL_href ''https://example.com/''
        [Element ''html'' []
           [Element ''body'' []
              [Element ''a'' [(''href'', ''http://'')] [], Element ''a'' [(''href'', [])] []]]])
   = [(''a'', [(''href'', ''http://'')]), (''a'', [(''href'', [])])]
   \<and> \<not> nonNavigable ''http://'' \<and> urlParam ''http://'' = None
   \<and> \<not> nonNavigable [] \<and> urlParam [] = None"
  by code_simp

text \<open>
  C1, amended. The elements of the rewrite table are the same in the output as in the
  input, in the same order, and for each attribute that the table pairs with the element:
  the attribute is present in the output exactly when it is in the input, and its output
  value is either the input value unchanged, that value being non-navigable, empty or not
  resolvable against the effective base URL, or the proxy link whose \<open>url\<close> parameter
  decodes to the URL that the input value resolves to against the effective base URL.
\<close>

theorem C1_link_values:
  "list_all2
     (\<lambda>(t, as) (t', as').
        t' = t \<and> (\<forall>a. (t, a) \<in> set attrs \<longrightarrow> linkAttrOk href baseUrl (map_of as a) (map_of as' a)))
     (linkElements doc) (linkElements (transformHtml href baseUrl doc))"
  unfolding linkElements_transformHtml list_all2_map2
  by (rule list_all2_all_nthI) (auto simp: fold_attrs_table rewriteAttr_ok split: prod.split)

theorem C1_link_values_witness:
  "linkElements
     [Element ''html'' []
        [Element ''body'' []
           [Element ''a'' [(''href'', ''/about'')] [Other ''About''],
            Element ''img'' [(''src'', ''data:image/png;base64,AAA''), (''alt'', ''x'')] [],
            Element ''a'' [(''href'', [])] []]]]
   = [(''a'', [(''href'', ''/about'')]),
      (''img'', [(''src'', ''data:image/png;base64,AAA''), (''alt'', ''x'')]),
      (''a'', [(''href'', [])])]
   \<and> linkElements
       (transformHtml URL_href ''https://example.com/''
          [Element ''html'' []
             [Element ''body'' []
                [Element ''a'' [(''href'', ''/about'')] [Other ''About''],
                 Element ''img'' [(''src'', ''data:image/png;base64,AAA''), (''alt'', ''x'')] [],
                 Element ''a'' [(''href'', [])] []]]])
     = [(''a'', [(''href'', ''/.netlify/functions/proxy?url=https%3A%2F%2Fexample.com%2Fabout'')]),
        (''img'', [(''src'', ''data:image/png;base64,AAA''), (''alt'', ''x'')]),
        (''a'', [(''href'', [])])]
   \<and> linkAttrOk URL_href ''https://example.com/'' (Some ''/about'')
       (Some ''/.netlify/functions/proxy?url=https%3A%2F%2Fexample.com%2Fabout'')
   \<and> linkAttrOk URL_href ''https://example.com/'' (Some ''data:image/png;base64,AAA'')
       (Some ''data:image/png;base64,AAA'')
   \<and> linkAttrOk URL_href ''https://example.com/'' (Some []) (Some [])"
proof -
  let ?doc = "[Element ''html'' []
        [Element ''body'' []
           [Element ''a'' [(''href'', ''/about'')] [Other ''About''],
            Element ''img'' [(''src'', ''data:image/png;base64,AAA''), (''alt'', ''x'')] [],
            Element ''a'' [(''href'', [])] []]]]"
  have i: "linkElements ?doc
      = [(''a'', [(''href'', ''/about'')]),
         (''img'', [(''src'', ''data:image/png;base64,AAA''), (''alt'', ''x'')]),
         (''a'', [(''href'', [])])]"
    by code_simp
  have o: "linkElements (transformHtml URL_href ''https://example.com/'' ?doc)
      = [(''a'', [(''href'', ''/.netlify/functions/proxy?url=https%3A%2F%2Fexample.com%2Fabout'')]),
         (''img'', [(''src'', ''data:image/png;base64,AAA''), (''alt'', ''x'')]),
         (''a'', [(''href'', [])])]"
    by code_simp
  have t: "(''a'', ''href'') \<in> set attrs" "(''img'', ''src'') \<in> set attrs"
    by (simp_all add: attrs_def)
  have "list_all2
     (\<lambda>(t, as) (t', as').
        t' = t \<and> (\<forall>a. (t, a) \<in> set attrs \<longrightarrow>
          linkAttrOk URL_href ''https://example.com/'' (map_of as a) (map_of as' a)))
     (linkElements ?doc) (linkElements (transformHtml URL_href ''https://example.com/'' ?doc))"
    by (rule C1_link_values)
  then have
    "\<forall>a. (''a'', a) \<in> set attrs \<longrightarrow>
       linkAttrOk URL_href ''https://example.com/'' (map_of [(''href'', ''/about'')] a)
         (map_of [(''href'', ''/.netlify/functions/proxy?url=https%3A%2F%2Fexample.com%2Fabout'')] a)"
    "\<forall>a. (''img'', a) \<in> set attrs \<longrightarrow>
       linkAttrOk URL_href ''https://example.com/''
         (map_of [(''src'', ''data:image/png;base64,AAA''), (''alt'', ''x'')] a)
         (map_of [(''src'', ''data:image/png;base64,AAA''), (''alt'', ''x'')] a)"
    "\<forall>a. (''a'', a) \<in> set attrs \<longrightarrow>
       linkAttrOk URL_href ''https://example.com/'' (map_of [(''href'', [])] a)
         (map_of [(''href'', [])] a)"
    unfolding i o by simp_all
  then have
    "linkAttrOk URL_href ''https://example.com/'' (map_of [(''href'', ''/about'')] ''href'')
         (map_of [(''href'', ''/.netlify/functions/proxy?url=https%3A%2F%2Fexample.com%2Fabout'')] ''href'')"
    "linkAttrOk URL_href ''https://example.com/''
         (map_of [(''src'', ''data:image/png;base64,AAA''), (''alt'', ''x'')] ''src'')
         (map_of [(''src'', ''data:image/png;base64,AAA''), (''alt'', ''x'')] ''src'')"
    "linkAttrOk URL_href ''https://example.com/'' (map_of [(''href'', [])] ''href'')
         (map_of [(''href'', [])] ''href'')"
    using t by blast+
  then show ?thesis using i o by simp
qed


section \<open>Host Guard: the listed hostnames and the specification's list\<close>

lemma canon_lower_eq:
  "canonicalize c = canonicalize d \<longleftrightarrow> asciiLower c = asciiLower d"
  using code_lt[of c] code_lt[of d]
  by (auto simp: canonicalize_def asciiLower_def code_eq_iff[of "char_of _"] code_eq_iff[of c]
      code_eq_iff[of _ "char_of _"] code_char_of)

lemma map_canon_lower_eq:
  "map canonicalize xs = map canonicalize ys \<longleftrightarrow> map asciiLower xs = map asciiLower ys"
proof (induction xs arbitrary: ys)
  case Nil
  then show ?case by auto
next
  case (Cons x xs)
  then show ?case by (cases ys) (auto simp: canon_lower_eq)
qed

lemma rx_localhost_spec: "rx_localhost h \<longleftrightarrow> map asciiLower h = ''localhost''"
proof -
  have "map asciiLower ''localhost'' = ''localhost''"
    by (simp add: asciiLower_def code_def)
  then show ?thesis by (simp only: rx_localhost_def map_canon_lower_eq)
qed

lemma endsWith_canon_lower:
  "endsWith (map canonicalize h) (map canonicalize p)
   \<longleftrightarrow> endsWith (map asciiLower h) (map asciiLower p)"
  unfolding endsWith_def length_map drop_map by (simp only: map_canon_lower_eq)

lemma rx_local_spec: "rx_local h \<longleftrightarrow> endsWith (map asciiLower h) ''.local''"
proof -
  have l: "map asciiLower ''.local'' = ''.local''"
    by (simp add: asciiLower_def code_def)
  show ?thesis unfolding rx_local_def endsWith_canon_lower l ..
qed

lemma startsWith_Cons:
  "startsWith s (p # ps) \<longleftrightarrow> (\<exists>t. s = p # t \<and> startsWith t ps)"
  by (cases s) (auto simp: startsWith_def)

lemma startsWith_Nil: "startsWith s []"
  by (simp add: startsWith_def)

lemma octets:
  "map showNat [16..<32] =
     [''16'', ''17'', ''18'', ''19'', ''20'', ''21'', ''22'', ''23'', ''24'', ''25'', ''26'',
      ''27'', ''28'', ''29'', ''30'', ''31'']"
  by code_simp

lemma digit_codes:
  "code CHR ''0'' = 48" "code CHR ''1'' = 49" "code CHR ''2'' = 50" "code CHR ''3'' = 51"
  "code CHR ''4'' = 52" "code CHR ''5'' = 53" "code CHR ''6'' = 54" "code CHR ''7'' = 55"
  "code CHR ''8'' = 56" "code CHR ''9'' = 57"
  by (simp_all add: code_def)

lemma digit_ranges:
  "54 \<le> code b \<and> code b \<le> 57 \<longleftrightarrow> b = CHR ''6'' \<or> b = CHR ''7'' \<or> b = CHR ''8'' \<or> b = CHR ''9''"
  "isDigit b \<longleftrightarrow> b = CHR ''0'' \<or> b = CHR ''1'' \<or> b = CHR ''2'' \<or> b = CHR ''3'' \<or> b = CHR ''4''
     \<or> b = CHR ''5'' \<or> b = CHR ''6'' \<or> b = CHR ''7'' \<or> b = CHR ''8'' \<or> b = CHR ''9''"
  "48 \<le> code b \<and> code b \<le> 49 \<longleftrightarrow> b = CHR ''0'' \<or> b = CHR ''1''"
  unfolding isDigit_def code_eq_iff[of b] digit_codes by arith+

lemma rx_172_spec:
  "rx_172 h \<longleftrightarrow> list_ex (\<lambda>n. startsWith h (''172.'' @ showNat n @ ''.'')) [16..<32]"
proof -
  have "list_ex (\<lambda>n. startsWith h (''172.'' @ showNat n @ ''.'')) [16..<32]
      \<longleftrightarrow> list_ex (\<lambda>oct. startsWith h (''172.'' @ oct @ ''.'')) (map showNat [16..<32])"
    by (simp add: list_ex_iff)
  also have "\<dots> \<longleftrightarrow> rx_172 h"
    unfolding octets rx_172_def
    by (auto simp: startsWith_Cons startsWith_Nil digit_ranges split: list.splits)
  finally show ?thesis by simp
qed

lemma isBlockedHost_spec: "isBlockedHost hostname \<longleftrightarrow> isBlocked_spec hostname"
  unfolding isBlockedHost_char isBlocked_spec_def rx_localhost_spec rx_local_spec rx_172_spec
    rx_127_def rx_10_def rx_192_168_def rx_0_def
  by (auto split: option.split)

text \<open>
  C2. Each of localhost, 127.0.0.1, 10.0.0.5, 192.168.1.1, 172.16.0.1, 172.31.255.255,
  foo.local and 0.0.0.0 is blocked, and so are the empty and the absent hostname; each of
  example.com, 8.8.8.8, 172.32.0.1 and 172.15.0.1 is allowed. On every hostname the seven
  patterns decide as the specification's list does: \<open>localhost\<close> in any letter case, the
  prefixes \<open>127.\<close>, \<open>10.\<close>, \<open>192.168.\<close> and \<open>0.\<close>, the prefix \<open>172.\<close> with a second octet
  from 16 to 31, and the suffix \<open>.local\<close> in any letter case.
\<close>

theorem C2_isBlockedHost_listed:
  "isBlockedHost (Some ''localhost'') \<and>
   isBlockedHost (Some ''127.0.0.1'') \<and>
   isBlockedHost (Some ''10.0.0.5'') \<and>
   isBlockedHost (Some ''192.168.1.1'') \<and>
   isBlockedHost (Some ''172.16.0.1'') \<and>
   isBlockedHost (Some ''172.31.255.255'') \<and>
   isBlockedHost (Some ''foo.local'') \<and>
   isBlockedHost (Some ''0.0.0.0'') \<and>
   isBlockedHost (Some []) \<and>
   isBlockedHost None \<and>
   \<not> isBlockedHost (Some ''example.com'') \<and>
   \<not> isBlockedHost (Some ''8.8.8.8'') \<and>
   \<not> isBlockedHost (Some ''172.32.0.1'') \<and>
   \<not> isBlockedHost (Some ''172.15.0.1'') \<and>
   (isBlockedHost hostname \<longleftrightarrow> isBlocked_spec hostname)"
  using isBlockedHost_spec[of hostname] by (simp add: host_guard_defs)

end
